theory Spec2Isabelle
  imports Main "HOL-Library.Word"
begin

section \<open>Status codes\<close>

text \<open>
  The return kinds of \<^verbatim>\<open>nixl_status_t\<close> that the engines below produce. The enumeration
  itself lives in \<^verbatim>\<open>nixl_types.h\<close>; only the constants the sources mention are listed.
\<close>

datatype nixl_status_t =
    NIXL_SUCCESS
  | NIXL_IN_PROG
  | NIXL_ERR_INVALID_PARAM
  | NIXL_ERR_BACKEND
  | NIXL_ERR_NOT_FOUND
  | NIXL_ERR_MISMATCH
  | NIXL_ERR_NOT_ALLOWED
  | NIXL_ERR_REMOTE_DISCONNECT
  | NIXL_ERR_CANCELED
  | NIXL_ERR_NOT_SUPPORTED

type_synonym notif_list_t = "(string \<times> string) list"

text \<open>
  How a call ends: it returns, it runs into undefined behaviour (a null or out-of-range
  access), or it never returns.
\<close>

datatype 'a outcome = Returns 'a | Undefined | Blocks

section \<open>Multi-rail engine: the request handle\<close>

text \<open>
  \<^verbatim>\<open>nixlLibfabricBackendH\<close>: two atomic \<^verbatim>\<open>size_t\<close> counters, modelled as 64-bit words.
\<close>

record nixlLibfabricBackendH =
  completed_requests :: "64 word"
  total_requests_used :: "64 word"

definition new_nixlLibfabricBackendH :: nixlLibfabricBackendH where
  "new_nixlLibfabricBackendH = \<lparr>completed_requests = 0, total_requests_used = 0\<rparr>"

definition init_request_tracking :: "64 word \<Rightarrow> nixlLibfabricBackendH \<Rightarrow> nixlLibfabricBackendH" where
  "init_request_tracking num_requests h =
     h\<lparr>total_requests_used := num_requests, completed_requests := 0\<rparr>"

definition increment_completed_requests :: "nixlLibfabricBackendH \<Rightarrow> nixlLibfabricBackendH" where
  "increment_completed_requests h = h\<lparr>completed_requests := completed_requests h + 1\<rparr>"

definition get_completed_requests_count :: "nixlLibfabricBackendH \<Rightarrow> 64 word" where
  "get_completed_requests_count h = completed_requests h"

definition get_total_requests_used :: "nixlLibfabricBackendH \<Rightarrow> 64 word" where
  "get_total_requests_used h = total_requests_used h"

definition adjust_total_requests :: "64 word \<Rightarrow> nixlLibfabricBackendH \<Rightarrow> nixlLibfabricBackendH" where
  "adjust_total_requests actual_count h = h\<lparr>total_requests_used := actual_count\<rparr>"

definition is_completed :: "nixlLibfabricBackendH \<Rightarrow> bool" where
  "is_completed h = (completed_requests h = total_requests_used h)"

section \<open>Multi-rail engine: state\<close>

type_synonym fi_addr_t = "64 word"

datatype ConnectionState =
  DISCONNECTED | CONNECT_REQ_SENT | CONNECT_ACK_SENT | CONNECTED | FAILED

text \<open>
  \<^verbatim>\<open>nixlLibfabricConnection\<close>. The engine holds connections through shared pointers and
  compares them by address; \<open>object_id\<close> stands for the address of the object: it is the
  number of connections created before this one, so two objects never share it.
\<close>

record nixlLibfabricConnection =
  remoteAgent :: string
  rail_remote_addr_list :: "fi_addr_t list"
  control_rail_remote_addr_list :: "fi_addr_t list"
  src_ep_names :: "string list"
  control_ep_names :: "string list"
  agent_index :: "16 word"
  overall_state :: ConnectionState
  object_id :: nat

text \<open>
  \<^verbatim>\<open>nixlLibfabricRailManager\<close>: the private threshold and the sizes of the two rail banks.
\<close>

record nixlLibfabricRailManager =
  rm_striping_threshold :: "64 word"
  num_data_rails :: nat
  num_control_rails :: nat

text \<open>
  A queued notification, as \<^verbatim>\<open>pending_notifications_.emplace_back(remote_name, msg,
  expected_xfer_ids)\<close> builds it. The \<^verbatim>\<open>unordered_set<uint32_t>\<close> of expected ids is the
  list of its elements in iteration order.
\<close>

record PendingNotification =
  remote_agent :: string
  message :: string
  expected_xfer_ids :: "32 word list"

text \<open>
  The members of \<^verbatim>\<open>nixlLibfabricEngine\<close> that the modelled methods read or write. A map
  entry of \<open>connections\<close> is \<open>Some None\<close> for a null shared pointer.
\<close>

record nixlLibfabricEngine =
  localAgent :: string
  progress_thread_enabled :: bool
  striping_threshold :: "64 word"
  rail_manager :: nixlLibfabricRailManager
  connections :: "string \<rightharpoonup> nixlLibfabricConnection option"
  agent_names :: "string list"
  notifMainList :: notif_list_t
  received_remote_writes :: "32 word set"
  pending_notifications :: "PendingNotification list"

section \<open>Multi-rail engine: notification queuing\<close>

text \<open>
  Modelled from the spec: \<^verbatim>\<open>BinaryNotification\<close> is declared in
  \<^verbatim>\<open>libfabric_common.h\<close>, which is not among the sources. Section 4.3.5 and 4.3.6 say what
  it carries: the sender's agent name, the message and the XFER_IDs of the data
  sub-requests. \<open>wire_size\<close> is the length of the received byte string, which
  \<^verbatim>\<open>processNotification\<close> compares with \<^verbatim>\<open>sizeof(BinaryNotification)\<close>.
\<close>

record BinaryNotification =
  wire_size :: nat
  agent_name :: string
  notif_message :: string
  xfer_ids :: "32 word list"

definition getXferIds :: "BinaryNotification \<Rightarrow> 32 word list" where
  "getXferIds n = remdups (xfer_ids n)"

text \<open>The loop of \<^verbatim>\<open>allXferIdsReceived\<close>, which is also the inner loop of
  \<^verbatim>\<open>checkPendingNotifications\<close>: stop at the first id that has not arrived.\<close>

fun allXferIdsReceived :: "32 word set \<Rightarrow> 32 word list \<Rightarrow> bool" where
  "allXferIdsReceived received [] = True"
| "allXferIdsReceived received (xfer_id # expected) =
     (if xfer_id \<notin> received then False else allXferIdsReceived received expected)"

text \<open>The \<^verbatim>\<open>while\<close> loop of \<^verbatim>\<open>checkPendingNotifications\<close> over the pending list: an entry
  whose ids have all arrived is pushed to the main list and erased, any other is kept.
  The result is the remaining pending list and the main list.\<close>

fun checkPendingNotifications_loop ::
  "32 word set \<Rightarrow> PendingNotification list \<Rightarrow> notif_list_t \<Rightarrow> PendingNotification list \<times> notif_list_t" where
  "checkPendingNotifications_loop received [] main = ([], main)"
| "checkPendingNotifications_loop received (p # ps) main =
     (if allXferIdsReceived received (expected_xfer_ids p)
      then checkPendingNotifications_loop received ps (main @ [(remote_agent p, message p)])
      else (case checkPendingNotifications_loop received ps main of
              (ps', main') \<Rightarrow> (p # ps', main')))"

definition checkPendingNotifications :: "nixlLibfabricEngine \<Rightarrow> nixlLibfabricEngine" where
  "checkPendingNotifications eng =
     (case checkPendingNotifications_loop (received_remote_writes eng)
             (pending_notifications eng) (notifMainList eng) of
        (ps', main') \<Rightarrow> eng\<lparr>pending_notifications := ps', notifMainList := main'\<rparr>)"

definition addReceivedXferId :: "32 word \<Rightarrow> nixlLibfabricEngine \<Rightarrow> nixlLibfabricEngine" where
  "addReceivedXferId xfer_id eng =
     checkPendingNotifications
       (eng\<lparr>received_remote_writes := insert xfer_id (received_remote_writes eng)\<rparr>)"

text \<open>\<^verbatim>\<open>processNotification\<close>; \<open>sizeof_BinaryNotification\<close> is the constant of the absent
  header.\<close>

definition processNotification ::
  "nat \<Rightarrow> BinaryNotification \<Rightarrow> nixlLibfabricEngine \<Rightarrow> nixlLibfabricEngine" where
  "processNotification sizeof_BinaryNotification serialized_notif eng =
     (if wire_size serialized_notif \<noteq> sizeof_BinaryNotification then eng
      else
        let remote_name = agent_name serialized_notif;
            msg = notif_message serialized_notif;
            expected = getXferIds serialized_notif
        in if expected \<noteq> [] then
             (if allXferIdsReceived (received_remote_writes eng) expected
              then eng\<lparr>notifMainList := notifMainList eng @ [(remote_name, msg)]\<rparr>
              else eng\<lparr>pending_notifications := pending_notifications eng @
                     [\<lparr>remote_agent = remote_name, message = msg, expected_xfer_ids = expected\<rparr>]\<rparr>)
           else eng\<lparr>notifMainList := notifMainList eng @ [(remote_name, msg)]\<rparr>)"

section \<open>Multi-rail engine: progress, checkXfer and getNotifs\<close>

text \<open>
  Modelled from the spec: \<^verbatim>\<open>nixlLibfabricRailManager::progressActiveDataRails\<close> is only
  declared in the sources. Its declaration says it returns \<^verbatim>\<open>NIXL_SUCCESS\<close> if completions
  were processed, \<^verbatim>\<open>NIXL_IN_PROG\<close> if none, an error on failure; section 4.3.5 says every
  processed completion runs a callback of the engine: the completion callback of a local
  sub-request, or the XFER_ID callback for a remote write. One call is described by its
  status, the number of completion callbacks it ran for the handle at hand, and the
  XFER_IDs it handed to \<^verbatim>\<open>addReceivedXferId\<close>, in order.
\<close>

record data_rail_progress =
  progress_status :: nixl_status_t
  handle_completions :: nat
  arrived_xfer_ids :: "32 word list"

definition run_xfer_id_callbacks :: "32 word list \<Rightarrow> nixlLibfabricEngine \<Rightarrow> nixlLibfabricEngine" where
  "run_xfer_id_callbacks ids eng = foldl (\<lambda>e x. addReceivedXferId x e) eng ids"

definition run_completion_callbacks :: "nat \<Rightarrow> nixlLibfabricBackendH \<Rightarrow> nixlLibfabricBackendH" where
  "run_completion_callbacks n h = (increment_completed_requests ^^ n) h"

definition nixlLibfabricEngine_checkXfer ::
  "nixlLibfabricEngine \<Rightarrow> data_rail_progress \<Rightarrow> nixlLibfabricBackendH \<Rightarrow>
   nixl_status_t \<times> nixlLibfabricBackendH" where
  "nixlLibfabricEngine_checkXfer eng pr h =
     (if \<not> progress_thread_enabled eng then
        (let h' = run_completion_callbacks (handle_completions pr) h in
         if progress_status pr \<noteq> NIXL_SUCCESS \<and> progress_status pr \<noteq> NIXL_IN_PROG
         then (progress_status pr, h')
         else if is_completed h' then (NIXL_SUCCESS, h') else (NIXL_IN_PROG, h'))
      else if is_completed h then (NIXL_SUCCESS, h) else (NIXL_IN_PROG, h))"

text \<open>
  The block of \<^verbatim>\<open>getNotifs\<close> that holds \<^verbatim>\<open>notif_mutex_\<close>: the main list is appended to the
  caller's list and cleared. The result is the status, the engine and the caller's list.
  The mutex is taken as free: the embedding is sequential.
\<close>

definition getNotifs_locked ::
  "nixlLibfabricEngine \<Rightarrow> notif_list_t \<Rightarrow> nixl_status_t \<times> nixlLibfabricEngine \<times> notif_list_t" where
  "getNotifs_locked eng notif_list =
     (let notif_list' = notif_list @ notifMainList eng in
      if notifMainList eng \<noteq> []
      then (NIXL_SUCCESS, eng\<lparr>notifMainList := []\<rparr>, notif_list')
      else (NIXL_IN_PROG, eng\<lparr>notifMainList := []\<rparr>, notif_list'))"

text \<open>
  \<^verbatim>\<open>nixlLibfabricEngine::getNotifs\<close>. Whether its call of \<^verbatim>\<open>progressActiveDataRails\<close>
  returns is decided by the rail manager's code, which is only declared (a rail's
  \<^verbatim>\<open>progressCompletionQueue\<close> has a blocking mode), so the call is given as an outcome:
  \<open>Blocks\<close> when it never returns. With the progress thread enabled the call is not made.
\<close>

definition nixlLibfabricEngine_getNotifs ::
  "nixlLibfabricEngine \<Rightarrow> data_rail_progress outcome \<Rightarrow> notif_list_t \<Rightarrow>
   (nixl_status_t \<times> nixlLibfabricEngine \<times> notif_list_t) outcome" where
  "nixlLibfabricEngine_getNotifs eng progress notif_list =
     (if \<not> progress_thread_enabled eng then
        (case progress of
           Undefined \<Rightarrow> Undefined
         | Blocks \<Rightarrow> Blocks
         | Returns pr \<Rightarrow>
             (let eng1 = run_xfer_id_callbacks (arrived_xfer_ids pr) eng in
              if progress_status pr \<noteq> NIXL_SUCCESS \<and> progress_status pr \<noteq> NIXL_IN_PROG
              then Returns (progress_status pr, eng1, notif_list)
              else Returns (getNotifs_locked eng1 notif_list)))
      else Returns (getNotifs_locked eng notif_list))"

section \<open>Multi-rail engine: connections\<close>

text \<open>
  Modelled from the spec: the rail manager's methods are only declared in the sources
  (\<^verbatim>\<open>libfabric_rail_manager.h\<close>). What the engine reads from them is taken as given: the
  outcome of \<^verbatim>\<open>deserializeConnectionInfo\<close> for a prefix and a blob (status, data endpoints,
  control endpoints), the outcome of \<^verbatim>\<open>insertAllAddresses\<close> for a rail type and endpoint
  list (status, fabric addresses, endpoint names), the status of \<^verbatim>\<open>postControlMessage\<close>,
  the endpoint names of the local rails, and the rails that discovery found.
\<close>

datatype RailType = DATA | CONTROL

record rail_manager_env =
  discovered_data_rails :: nat
  discovered_control_rails :: nat
  data_rail_ep_name :: "nat \<Rightarrow> string"
  control_rail_ep_name :: "nat \<Rightarrow> string"
  deserializeConnectionInfo :: "string \<Rightarrow> string \<Rightarrow> nixl_status_t \<times> string list \<times> string list"
  insertAllAddresses :: "RailType \<Rightarrow> string list \<Rightarrow> nixl_status_t \<times> fi_addr_t list \<times> string list"
  postControlMessage :: nixl_status_t

text \<open>\<^verbatim>\<open>createAgentConnection\<close>. A new connection object starts in \<open>DISCONNECTED\<close>, the
  initial state that the enumeration's comment names.\<close>

definition createAgentConnection ::
  "rail_manager_env \<Rightarrow> nixlLibfabricEngine \<Rightarrow> string \<Rightarrow> string list \<Rightarrow> string list \<Rightarrow>
   nixl_status_t \<times> nixlLibfabricEngine" where
  "createAgentConnection env eng name data_rail_endpoints control_rail_endpoints =
     (if length data_rail_endpoints \<noteq> num_data_rails (rail_manager eng)
      then (NIXL_ERR_INVALID_PARAM, eng)
      else if length control_rail_endpoints \<noteq> num_control_rails (rail_manager eng)
      then (NIXL_ERR_INVALID_PARAM, eng)
      else
        (case insertAllAddresses env DATA data_rail_endpoints of
           (data_status, data_addrs, data_names) \<Rightarrow>
             if data_status \<noteq> NIXL_SUCCESS then (NIXL_ERR_BACKEND, eng)
             else
               (case insertAllAddresses env CONTROL control_rail_endpoints of
                  (control_status, control_addrs, control_names) \<Rightarrow>
                    if control_status \<noteq> NIXL_SUCCESS then (NIXL_ERR_BACKEND, eng)
                    else
                      let names' = agent_names eng @ [name];
                          conn = \<lparr>remoteAgent = name,
                                  rail_remote_addr_list = data_addrs,
                                  control_rail_remote_addr_list = control_addrs,
                                  src_ep_names = data_names,
                                  control_ep_names = control_names,
                                  agent_index = word_of_nat (length names' - 1),
                                  overall_state = DISCONNECTED,
                                  object_id = length (agent_names eng)\<rparr>
                      in (NIXL_SUCCESS,
                          eng\<lparr>agent_names := names',
                              connections := (connections eng)(name \<mapsto> Some conn)\<rparr>))))"

definition nixlLibfabricEngine_loadRemoteConnInfo ::
  "rail_manager_env \<Rightarrow> nixlLibfabricEngine \<Rightarrow> string \<Rightarrow> string \<Rightarrow>
   nixl_status_t \<times> nixlLibfabricEngine" where
  "nixlLibfabricEngine_loadRemoteConnInfo env eng agent remote_conn_info =
     (if remote_conn_info = [] then (NIXL_ERR_INVALID_PARAM, eng)
      else
        (case deserializeConnectionInfo env ''dest'' remote_conn_info of
           (status, data_endpoints, control_endpoints) \<Rightarrow>
             if status \<noteq> NIXL_SUCCESS then (status, eng)
             else
               (case createAgentConnection env eng agent data_endpoints control_endpoints of
                  (conn_status, eng') \<Rightarrow>
                    if conn_status \<noteq> NIXL_SUCCESS then (conn_status, eng')
                    else (NIXL_SUCCESS, eng'))))"

section \<open>Multi-rail engine: construction and the striping threshold\<close>

record nixlBackendInitParams =
  init_localAgent :: string
  customParams :: "string \<rightharpoonup> string"
  enableProgTh :: bool
  pthrDelay :: "64 word"

text \<open>\<^verbatim>\<open>nixlBackendEngine::getInitParam\<close>: the value is written only when the key is found.\<close>

definition getInitParam :: "(string \<rightharpoonup> string) \<Rightarrow> string \<Rightarrow> nixl_status_t \<times> string option" where
  "getInitParam params key =
     (case params key of
        Some v \<Rightarrow> (NIXL_SUCCESS, Some v)
      | None \<Rightarrow> (NIXL_ERR_INVALID_PARAM, None))"

text \<open>
  \<^verbatim>\<open>std::stoull\<close> of the C++ library in base 10: leading white space, an optional sign,
  then the longest run of digits. \<open>None\<close> is an exception (\<^verbatim>\<open>invalid_argument\<close> when no
  digit follows, \<^verbatim>\<open>out_of_range\<close> when the value does not fit 64 bits); a minus sign
  negates in the unsigned type.
\<close>

definition isspace_char :: "char \<Rightarrow> bool" where
  "isspace_char c = (of_char c = (32::nat) \<or> (9 \<le> (of_char c :: nat) \<and> (of_char c :: nat) \<le> 13))"

definition isdigit_char :: "char \<Rightarrow> bool" where
  "isdigit_char c = (48 \<le> (of_char c :: nat) \<and> (of_char c :: nat) \<le> 57)"

definition digits_value :: "string \<Rightarrow> nat" where
  "digits_value ds = foldl (\<lambda>a c. 10 * a + (of_char c - 48)) 0 ds"

definition stoull :: "string \<Rightarrow> 64 word option" where
  "stoull s =
     (let s1 = dropWhile isspace_char s;
          neg = (s1 \<noteq> [] \<and> hd s1 = CHR ''-'');
          s2 = (if s1 \<noteq> [] \<and> (hd s1 = CHR ''-'' \<or> hd s1 = CHR ''+'') then tl s1 else s1);
          ds = takeWhile isdigit_char s2
      in if ds = [] then None
         else if digits_value ds \<ge> 2 ^ 64 then None
         else Some (if neg then - word_of_nat (digits_value ds) else word_of_nat (digits_value ds)))"

text \<open>Modelled from the spec: \<^verbatim>\<open>NIXL_LIBFABRIC_DEFAULT_STRIPING_THRESHOLD\<close> is a macro of the
  absent \<^verbatim>\<open>libfabric_common.h\<close>; section 4.3.2 gives the default as 1 MiB.\<close>

definition NIXL_LIBFABRIC_DEFAULT_STRIPING_THRESHOLD :: "64 word" where
  "NIXL_LIBFABRIC_DEFAULT_STRIPING_THRESHOLD = 1048576"

text \<open>Modelled from the spec: the constructor of \<^verbatim>\<open>nixlLibfabricRailManager\<close> is only
  declared; its documentation names the argument as the size threshold for striping, and
  the private member \<^verbatim>\<open>striping_threshold_\<close> has no setter in the class.\<close>

definition nixlLibfabricRailManager_ctor :: "rail_manager_env \<Rightarrow> 64 word \<Rightarrow> nixlLibfabricRailManager" where
  "nixlLibfabricRailManager_ctor env threshold =
     \<lparr>rm_striping_threshold = threshold,
      num_data_rails = discovered_data_rails env,
      num_control_rails = discovered_control_rails env\<rparr>"

text \<open>Modelled from the spec: \<^verbatim>\<open>shouldUseStriping\<close> is only declared (true if striping
  should be used, false for round-robin); section 4.3.2: at most the threshold is
  round-robin, above it is striped.\<close>

definition shouldUseStriping :: "nixlLibfabricRailManager \<Rightarrow> 64 word \<Rightarrow> bool" where
  "shouldUseStriping rm transfer_size = (transfer_size > rm_striping_threshold rm)"

text \<open>The block of the engine's constructor that parses \<^verbatim>\<open>striping_threshold\<close>.\<close>

definition parse_striping_threshold :: "(string \<rightharpoonup> string) \<Rightarrow> 64 word" where
  "parse_striping_threshold params =
     (case getInitParam params ''striping_threshold'' of
        (NIXL_SUCCESS, Some threshold_str) \<Rightarrow>
          (case stoull threshold_str of
             Some v \<Rightarrow> v
           | None \<Rightarrow> NIXL_LIBFABRIC_DEFAULT_STRIPING_THRESHOLD)
      | _ \<Rightarrow> NIXL_LIBFABRIC_DEFAULT_STRIPING_THRESHOLD)"

text \<open>
  The constructor of \<^verbatim>\<open>nixlLibfabricEngine\<close>: the member initialisers, the threshold
  block, and the self-connection. \<open>Inl\<close> is the exception thrown when the self-connection
  fails. Callback registration and thread start-up leave the modelled members unchanged.
\<close>

definition nixlLibfabricEngine_ctor ::
  "rail_manager_env \<Rightarrow> nixlBackendInitParams \<Rightarrow> nixl_status_t + nixlLibfabricEngine" where
  "nixlLibfabricEngine_ctor env init_params =
     (let rm = nixlLibfabricRailManager_ctor env NIXL_LIBFABRIC_DEFAULT_STRIPING_THRESHOLD;
          eng0 = \<lparr>localAgent = init_localAgent init_params,
                  progress_thread_enabled = enableProgTh init_params,
                  striping_threshold = parse_striping_threshold (customParams init_params),
                  rail_manager = rm,
                  connections = Map.empty,
                  agent_names = [],
                  notifMainList = [],
                  received_remote_writes = {},
                  pending_notifications = []\<rparr>
      in case createAgentConnection env eng0 (localAgent eng0)
                (map (data_rail_ep_name env) [0..<num_data_rails rm])
                (map (control_rail_ep_name env) [0..<num_control_rails rm]) of
           (conn_status, eng1) \<Rightarrow>
             if conn_status \<noteq> NIXL_SUCCESS then Inl conn_status else Inr eng1)"

section \<open>Multi-rail engine: prepXfer, postXfer, releaseReqH\<close>

datatype nixl_xfer_op_t = NIXL_READ | NIXL_WRITE

record nixl_opt_b_args_t =
  hasNotif :: bool
  notifMsg :: string

text \<open>\<^verbatim>\<open>nixlMetaDesc\<close>: a descriptor and its metadata pointer (\<open>None\<close> when null).\<close>

record 'm nixlMetaDesc =
  addr :: "64 word"
  len :: "64 word"
  devId :: "64 word"
  metadataP :: "'m option"

record nixlLibfabricPrivateMetadata =
  selected_rails :: "nat list"
  rail_mr_list :: "64 word list"
  rail_key_list :: "64 word list"

record nixlLibfabricPublicMetadata =
  rail_remote_key_list :: "64 word list"
  remote_buf_addr :: "64 word"
  conn :: "nixlLibfabricConnection option"

text \<open>
  \<^verbatim>\<open>nixlLibfabricEngine::prepXfer\<close>. The handle is an out-parameter: \<open>None\<close> in the result
  says that it was not assigned.
\<close>

definition nixlLibfabricEngine_prepXfer ::
  "nixlLibfabricEngine \<Rightarrow> nixl_xfer_op_t \<Rightarrow> nixlLibfabricPrivateMetadata nixlMetaDesc list \<Rightarrow>
   nixlLibfabricPublicMetadata nixlMetaDesc list \<Rightarrow> string \<Rightarrow>
   nixl_status_t \<times> nixlLibfabricBackendH option" where
  "nixlLibfabricEngine_prepXfer eng operation local remote agent =
     (case connections eng agent of
        None \<Rightarrow> (NIXL_ERR_NOT_FOUND, None)
      | Some None \<Rightarrow> (NIXL_ERR_NOT_FOUND, None)
      | Some (Some c) \<Rightarrow> (NIXL_SUCCESS, Some new_nixlLibfabricBackendH))"

text \<open>\<^verbatim>\<open>nixlLibfabricEngine::releaseReqH\<close>: both branches return success; neither the
  handle nor any rail is touched.\<close>

definition nixlLibfabricEngine_releaseReqH ::
  "nixlLibfabricEngine \<Rightarrow> nixlLibfabricBackendH option \<Rightarrow>
   nixl_status_t \<times> nixlLibfabricEngine \<times> nixlLibfabricBackendH option" where
  "nixlLibfabricEngine_releaseReqH eng handle =
     (if handle = None then (NIXL_SUCCESS, eng, handle) else (NIXL_SUCCESS, eng, handle))"

text \<open>\<^verbatim>\<open>notifSendPriv\<close>: the connection is looked up again and the notification posted
  on control rail 0.\<close>

definition notifSendPriv :: "rail_manager_env \<Rightarrow> nixlLibfabricEngine \<Rightarrow> string \<Rightarrow> nixl_status_t outcome" where
  "notifSendPriv env eng agent =
     (case connections eng agent of
        None \<Rightarrow> Returns NIXL_ERR_NOT_FOUND
      | Some None \<Rightarrow> Undefined
      | Some (Some c) \<Rightarrow>
          if control_rail_remote_addr_list c = [] then Undefined
          else if postControlMessage env \<noteq> NIXL_SUCCESS then Returns NIXL_ERR_BACKEND
          else Returns NIXL_SUCCESS)"

text \<open>
  What one \<^verbatim>\<open>postXfer\<close> call meets outside the engine: the result of
  \<^verbatim>\<open>establishConnection\<close> if it is called (\<open>None\<close> when its wait for the connection
  manager thread never ends), whether the control request pool had a free slot, what
  \<^verbatim>\<open>prepareAndSubmitTransfer\<close> answers for the descriptor of each index (status and the
  XFER_IDs it appended to the notification), the manual progress call, and the number
  of completion callbacks that a running progress thread ran before the final check.
\<close>

record postXfer_env =
  establishConnection_result :: "nixl_status_t option"
  control_request_allocated :: bool
  prepareAndSubmitTransfer :: "nat \<Rightarrow> nixl_status_t \<times> 32 word list"
  manual_progress :: data_rail_progress
  progress_thread_completions :: nat

text \<open>The submission loop of \<^verbatim>\<open>postXfer\<close> from descriptor \<open>desc_idx\<close> on; the accumulator is
  the XFER_ID list of the notification. Reading \<^verbatim>\<open>remote[desc_idx]\<close> past the end of the
  remote list is undefined.\<close>

fun postXfer_submit ::
  "(nat \<Rightarrow> nixl_status_t \<times> 32 word list) \<Rightarrow> nixlLibfabricConnection \<Rightarrow> nat \<Rightarrow>
   nixlLibfabricPrivateMetadata nixlMetaDesc list \<Rightarrow>
   nixlLibfabricPublicMetadata nixlMetaDesc list \<Rightarrow> 32 word list \<Rightarrow>
   (nixl_status_t \<times> 32 word list) outcome" where
  "postXfer_submit submit c desc_idx [] remote ids = Returns (NIXL_SUCCESS, ids)"
| "postXfer_submit submit c desc_idx (l # local) [] ids = Undefined"
| "postXfer_submit submit c desc_idx (l # local) (r # remote) ids =
     (case metadataP l of
        None \<Rightarrow> Returns (NIXL_ERR_INVALID_PARAM, ids)
      | Some local_md \<Rightarrow>
          (case metadataP r of
             None \<Rightarrow> Returns (NIXL_ERR_INVALID_PARAM, ids)
           | Some remote_md \<Rightarrow>
               (case conn remote_md of
                  None \<Rightarrow> Returns (NIXL_ERR_INVALID_PARAM, ids)
                | Some rc \<Rightarrow>
                    if object_id rc \<noteq> object_id c then Returns (NIXL_ERR_MISMATCH, ids)
                    else
                      (case submit desc_idx of
                         (status, new_ids) \<Rightarrow>
                           if status \<noteq> NIXL_SUCCESS then Returns (status, ids @ new_ids)
                           else postXfer_submit submit c (Suc desc_idx) local remote
                                  (ids @ new_ids)))))"


text \<open>\<^verbatim>\<open>postXfer\<close> after the handle cast: from the allocation of the control request to
  the final return. The result is the status and the handle.\<close>

definition postXfer_body ::
  "rail_manager_env \<Rightarrow> postXfer_env \<Rightarrow> nixlLibfabricEngine \<Rightarrow> nixlLibfabricConnection \<Rightarrow>
   nixlLibfabricPrivateMetadata nixlMetaDesc list \<Rightarrow>
   nixlLibfabricPublicMetadata nixlMetaDesc list \<Rightarrow> string \<Rightarrow> nixlLibfabricBackendH \<Rightarrow>
   nixl_opt_b_args_t option \<Rightarrow> (nixl_status_t \<times> nixlLibfabricBackendH) outcome" where
  "postXfer_body env penv eng c local remote agent backend_handle opt_args =
     (if \<not> control_request_allocated penv then Returns (NIXL_ERR_BACKEND, backend_handle)
      else
        let desc_count = length local;
            max_possible_requests =
              (word_of_nat desc_count :: 64 word) * word_of_nat (num_data_rails (rail_manager eng));
            h1 = init_request_tracking max_possible_requests backend_handle
        in (case postXfer_submit (prepareAndSubmitTransfer penv) c 0 local remote [] of
              Undefined \<Rightarrow> Undefined
            | Blocks \<Rightarrow> Blocks
            | Returns (status, ids) \<Rightarrow>
                (if status \<noteq> NIXL_SUCCESS then Returns (status, h1)
                 else
                   (let h2 = adjust_total_requests (word_of_nat (length ids)) h1;
                        notif_result =
                          (case opt_args of
                             None \<Rightarrow> Returns NIXL_SUCCESS
                           | Some args \<Rightarrow>
                               (if hasNotif args then notifSendPriv env eng agent
                                else Returns NIXL_SUCCESS))
                    in (case notif_result of
                          Undefined \<Rightarrow> Undefined
                        | Blocks \<Rightarrow> Blocks
                        | Returns notif_status \<Rightarrow>
                            (if notif_status \<noteq> NIXL_SUCCESS then Returns (notif_status, h2)
                             else if \<not> progress_thread_enabled eng then
                               (let h3 = run_completion_callbacks
                                           (handle_completions (manual_progress penv)) h2
                                in if progress_status (manual_progress penv) = NIXL_IN_PROG
                                   then Returns (NIXL_IN_PROG, h3)
                                   else if is_completed h3 then Returns (NIXL_SUCCESS, h3)
                                   else Returns (NIXL_IN_PROG, h3))
                             else
                               (let h3 = run_completion_callbacks
                                           (progress_thread_completions penv) h2
                                in if is_completed h3 then Returns (NIXL_SUCCESS, h3)
                                   else Returns (NIXL_IN_PROG, h3))))))))"

text \<open>\<^verbatim>\<open>nixlLibfabricEngine::postXfer\<close>: the validation of the connection and of the
  handle, then the body above. The handle pointer may be null (\<open>None\<close>).\<close>

definition nixlLibfabricEngine_postXfer ::
  "rail_manager_env \<Rightarrow> postXfer_env \<Rightarrow> nixlLibfabricEngine \<Rightarrow> nixl_xfer_op_t \<Rightarrow>
   nixlLibfabricPrivateMetadata nixlMetaDesc list \<Rightarrow>
   nixlLibfabricPublicMetadata nixlMetaDesc list \<Rightarrow> string \<Rightarrow> nixlLibfabricBackendH option \<Rightarrow>
   nixl_opt_b_args_t option \<Rightarrow> (nixl_status_t \<times> nixlLibfabricBackendH option) outcome" where
  "nixlLibfabricEngine_postXfer env penv eng operation local remote agent handle opt_args =
     (case connections eng agent of
        None \<Rightarrow> Returns (NIXL_ERR_NOT_FOUND, handle)
      | Some None \<Rightarrow> Returns (NIXL_ERR_NOT_FOUND, handle)
      | Some (Some c) \<Rightarrow>
          let established =
                (if overall_state c = DISCONNECTED
                 then (case establishConnection_result penv of
                         None \<Rightarrow> Blocks
                       | Some status \<Rightarrow> Returns status)
                 else Returns NIXL_SUCCESS)
          in (case established of
                Undefined \<Rightarrow> Undefined
              | Blocks \<Rightarrow> Blocks
              | Returns status \<Rightarrow>
                  (if status \<noteq> NIXL_SUCCESS then Returns (status, handle)
                   else
                     (case handle of
                        None \<Rightarrow> Returns (NIXL_ERR_INVALID_PARAM, None)
                      | Some backend_handle \<Rightarrow>
                          (case postXfer_body env penv eng c local remote agent
                                  backend_handle opt_args of
                             Undefined \<Rightarrow> Undefined
                           | Blocks \<Rightarrow> Blocks
                           | Returns (st, h) \<Rightarrow> Returns (st, Some h))))))"

section \<open>Single-transport engine: the endpoint state machine\<close>

datatype ucs_status_t =
    UCS_OK
  | UCS_INPROGRESS
  | UCS_ERR_BUSY
  | UCS_ERR_NOT_CONNECTED
  | UCS_ERR_CONNECTION_RESET
  | UCS_ERR_ENDPOINT_TIMEOUT
  | UCS_ERR_INVALID_PARAM
  | UCS_ERR_CANCELED
  | UCS_ERR_OTHER

definition ucx_status_to_nixl :: "ucs_status_t \<Rightarrow> nixl_status_t" where
  "ucx_status_to_nixl status =
     (case status of
        UCS_OK \<Rightarrow> NIXL_SUCCESS
      | UCS_INPROGRESS \<Rightarrow> NIXL_IN_PROG
      | UCS_ERR_BUSY \<Rightarrow> NIXL_IN_PROG
      | UCS_ERR_NOT_CONNECTED \<Rightarrow> NIXL_ERR_REMOTE_DISCONNECT
      | UCS_ERR_CONNECTION_RESET \<Rightarrow> NIXL_ERR_REMOTE_DISCONNECT
      | UCS_ERR_ENDPOINT_TIMEOUT \<Rightarrow> NIXL_ERR_REMOTE_DISCONNECT
      | UCS_ERR_INVALID_PARAM \<Rightarrow> NIXL_ERR_INVALID_PARAM
      | UCS_ERR_CANCELED \<Rightarrow> NIXL_ERR_CANCELED
      | UCS_ERR_OTHER \<Rightarrow> NIXL_ERR_BACKEND)"

text \<open>A \<^verbatim>\<open>ucs_status_ptr_t\<close>: null (the operation completed), an encoded error, or a
  pointer to a request.\<close>

datatype ucs_status_ptr_t = UCS_PTR_NULL | UCS_PTR_ERR ucs_status_t | UCS_PTR_REQUEST nat

datatype nixl_ucx_ep_state_t =
    NIXL_UCX_EP_STATE_NULL
  | NIXL_UCX_EP_STATE_CONNECTED
  | NIXL_UCX_EP_STATE_FAILED
  | NIXL_UCX_EP_STATE_DISCONNECTED

text \<open>The calls into the transport that the endpoint makes: the forced close of the
  error callback, the close of \<^verbatim>\<open>closeImpl\<close> with its flags, and the release of a request.\<close>

datatype ucp_call =
    Ucp_ep_close_nb_FORCE nat
  | Ucp_ep_close_nbx "nat option" nat
  | Ucp_request_free nat

record nixlUcxEp =
  state :: nixl_ucx_ep_state_t
  eph :: "nat option"

text \<open>\<^verbatim>\<open>setState\<close>, \<^verbatim>\<open>err_cb\<close> and \<^verbatim>\<open>closeImpl\<close>. The \<^verbatim>\<open>NIXL_ASSERT\<close> checks are
  \<^verbatim>\<open>DCHECK\<close>s, compiled out of release builds, and are left out. \<open>close_result\<close> is what the
  transport's close call returns.\<close>

definition setState :: "nixl_ucx_ep_state_t \<Rightarrow> nixlUcxEp \<Rightarrow> nixlUcxEp" where
  "setState new_state ep = ep\<lparr>state := new_state\<rparr>"

definition err_cb :: "nixlUcxEp \<Rightarrow> nat \<Rightarrow> ucs_status_t \<Rightarrow> ucs_status_ptr_t \<Rightarrow> nixlUcxEp \<times> ucp_call list" where
  "err_cb ep ucp_ep status close_result =
     (case state ep of
        NIXL_UCX_EP_STATE_NULL \<Rightarrow> (ep, [])
      | NIXL_UCX_EP_STATE_FAILED \<Rightarrow> (ep, [])
      | NIXL_UCX_EP_STATE_DISCONNECTED \<Rightarrow> (ep, [])
      | NIXL_UCX_EP_STATE_CONNECTED \<Rightarrow>
          (setState NIXL_UCX_EP_STATE_FAILED ep,
           Ucp_ep_close_nb_FORCE ucp_ep #
             (case close_result of
                UCS_PTR_REQUEST request \<Rightarrow> [Ucp_request_free request]
              | _ \<Rightarrow> [])))"

definition closeImpl ::
  "nat \<Rightarrow> ucs_status_ptr_t \<Rightarrow> nixlUcxEp \<Rightarrow> nixl_status_t \<times> nixlUcxEp \<times> ucp_call list" where
  "closeImpl flags close_result ep =
     (case state ep of
        NIXL_UCX_EP_STATE_NULL \<Rightarrow> (NIXL_SUCCESS, ep, [])
      | NIXL_UCX_EP_STATE_DISCONNECTED \<Rightarrow> (NIXL_SUCCESS, ep, [])
      | NIXL_UCX_EP_STATE_FAILED \<Rightarrow> (NIXL_ERR_REMOTE_DISCONNECT, ep\<lparr>eph := None\<rparr>, [])
      | NIXL_UCX_EP_STATE_CONNECTED \<Rightarrow>
          (case close_result of
             UCS_PTR_NULL \<Rightarrow>
               (NIXL_SUCCESS, ep\<lparr>eph := None\<rparr>, [Ucp_ep_close_nbx (eph ep) flags])
           | UCS_PTR_ERR status \<Rightarrow>
               (ucx_status_to_nixl status, ep\<lparr>eph := None\<rparr>, [Ucp_ep_close_nbx (eph ep) flags])
           | UCS_PTR_REQUEST request \<Rightarrow>
               (NIXL_SUCCESS, ep\<lparr>eph := None\<rparr>,
                [Ucp_ep_close_nbx (eph ep) flags, Ucp_request_free request])))"

definition disconnect_nb ::
  "ucs_status_ptr_t \<Rightarrow> nixlUcxEp \<Rightarrow> nixl_status_t \<times> nixlUcxEp \<times> ucp_call list" where
  "disconnect_nb close_result ep =
     (case closeImpl 0 close_result ep of
        (status, ep', calls) \<Rightarrow>
          ((if status = NIXL_ERR_REMOTE_DISCONNECT then NIXL_SUCCESS else status), ep', calls))"

text \<open>
  The constructor: \<open>create_status\<close> and \<open>new_eph\<close> are what \<^verbatim>\<open>ucp_ep_create\<close> returns and
  writes; \<open>None\<close> is the exception. Modelled from the spec: the member initialiser of
  \<^verbatim>\<open>state\<close> is in the absent \<^verbatim>\<open>ucx_utils.h\<close>; section 4.2 starts the machine at NULL.
\<close>

definition nixlUcxEp_ctor :: "ucs_status_t \<Rightarrow> nat \<Rightarrow> nixlUcxEp option" where
  "nixlUcxEp_ctor create_status new_eph =
     (if ucx_status_to_nixl create_status = NIXL_SUCCESS
      then Some (setState NIXL_UCX_EP_STATE_CONNECTED
                   \<lparr>state = NIXL_UCX_EP_STATE_NULL, eph = Some new_eph\<rparr>)
      else None)"

text \<open>The operations that act on an existing endpoint, as one step function.\<close>

datatype ep_operation =
    Err_cb nat ucs_status_t ucs_status_ptr_t
  | CloseImpl nat ucs_status_ptr_t
  | Disconnect_nb ucs_status_ptr_t

fun ep_step :: "ep_operation \<Rightarrow> nixlUcxEp \<Rightarrow> nixlUcxEp" where
  "ep_step (Err_cb ucp_ep status close_result) ep = fst (err_cb ep ucp_ep status close_result)"
| "ep_step (CloseImpl flags close_result) ep = fst (snd (closeImpl flags close_result ep))"
| "ep_step (Disconnect_nb close_result) ep = fst (snd (disconnect_nb close_result ep))"

section \<open>Engine of engines\<close>

text \<open>
  \<^verbatim>\<open>nixlUcxMoEngine\<close> drives a vector of \<^verbatim>\<open>nixlUcxEngine\<close> objects, whose code is not among
  the sources. Every call into one of them is recorded, with the index of the engine
  first, and its status is taken from \<open>ucx_env\<close>: for the calls made inside the loops over
  the request matrix by the position \<open>lidx\<close>, \<open>ridx\<close> of the element. The last argument
  of \<open>UcxPostXfer\<close> is the \<^verbatim>\<open>opt_args\<close> pointer handed to the inner \<^verbatim>\<open>postXfer\<close>, which is
  where a notification would be piggybacked (\<open>None\<close> when null).
\<close>

datatype ucx_call =
    UcxLoadRemoteConnInfo nat string string
  | UcxPrepXfer nat string
  | UcxPostXfer nat string "nat option" "nixl_opt_b_args_t option"
  | UcxCheckXfer nat "nat option"
  | UcxReleaseReqH nat "nat option"
  | UcxGenNotif nat string string
  | UcxGetNotifs nat

record ucx_env =
  ucx_loadRemoteConnInfo :: "nat \<Rightarrow> nat \<Rightarrow> nixl_status_t"
  ucx_prepXfer :: "nat \<Rightarrow> nat \<Rightarrow> nixl_status_t \<times> nat option"
  ucx_postXfer :: "nat \<Rightarrow> nat \<Rightarrow> nixl_status_t"
  ucx_checkXfer :: "nat \<Rightarrow> nat \<Rightarrow> nixl_status_t"
  ucx_releaseReqH :: "nat \<Rightarrow> nat \<Rightarrow> nixl_status_t"
  ucx_genNotif :: nixl_status_t
  ucx_getNotifs :: nixl_status_t

text \<open>What \<^verbatim>\<open>nixlSerDes\<close> (not among the sources) reads from a connection blob: the status
  of \<^verbatim>\<open>importStr\<close>, the length of the \<^verbatim>\<open>Count\<close> buffer, the status and value of reading
  it, and the successive \<^verbatim>\<open>Value\<close> strings.\<close>

record serdes_view =
  importStr_status :: nixl_status_t
  count_buf_len :: int
  count_getBuf :: "nixl_status_t \<times> nat"
  value_str :: "nat \<Rightarrow> string"

record nixlUcxMoConnection =
  conn_remoteAgent :: string
  num_engines :: "32 word"

text \<open>\<open>engines_size\<close> is \<^verbatim>\<open>engines.size()\<close>.\<close>

record nixlUcxMoEngine =
  engines_size :: nat
  remoteConnMap :: "string \<rightharpoonup> nixlUcxMoConnection"

text \<open>\<^verbatim>\<open>std::to_string\<close> of an unsigned value and \<^verbatim>\<open>getEngName\<close>.\<close>

fun to_string :: "nat \<Rightarrow> string" where
  "to_string n =
     (if n < 10 then [''0123456789'' ! n]
      else to_string (n div 10) @ [''0123456789'' ! (n mod 10)])"

definition getEngName :: "string \<Rightarrow> nat \<Rightarrow> string" where
  "getEngName baseName eidx = baseName @ '':'' @ to_string eidx"

text \<open>The positions of a matrix in the order of the nested \<^verbatim>\<open>for\<close> loops.\<close>

definition positions :: "'a list list \<Rightarrow> (nat \<times> nat) list" where
  "positions mat =
     concat (map (\<lambda>lidx. map (\<lambda>ridx. (lidx, ridx)) [0..<length (mat ! lidx)]) [0..<length mat])"

text \<open>The loop of \<^verbatim>\<open>loadRemoteConnInfo\<close> over the remote engine indices and the local
  engines; it stops at the first status that is not success.\<close>

fun loadRemoteConnInfo_loop ::
  "ucx_env \<Rightarrow> serdes_view \<Rightarrow> string \<Rightarrow> (nat \<times> nat) list \<Rightarrow> ucx_call list \<Rightarrow>
   nixl_status_t option \<times> ucx_call list" where
  "loadRemoteConnInfo_loop env sd agent [] calls = (None, calls)"
| "loadRemoteConnInfo_loop env sd agent ((idx, e) # ps) calls =
     (let calls' = calls @ [UcxLoadRemoteConnInfo e (getEngName agent idx) (value_str sd idx)]
      in if ucx_loadRemoteConnInfo env idx e \<noteq> NIXL_SUCCESS
         then (Some (ucx_loadRemoteConnInfo env idx e), calls')
         else loadRemoteConnInfo_loop env sd agent ps calls')"

definition nixlUcxMoEngine_loadRemoteConnInfo ::
  "ucx_env \<Rightarrow> (string \<Rightarrow> serdes_view) \<Rightarrow> nixlUcxMoEngine \<Rightarrow> string \<Rightarrow> string \<Rightarrow>
   nixl_status_t \<times> nixlUcxMoEngine \<times> ucx_call list" where
  "nixlUcxMoEngine_loadRemoteConnInfo env importStr eng agent remote_conn_info =
     (case remoteConnMap eng agent of
        Some existing \<Rightarrow> (NIXL_ERR_INVALID_PARAM, eng, [])
      | None \<Rightarrow>
          let sd = importStr remote_conn_info in
          if importStr_status sd \<noteq> NIXL_SUCCESS then (importStr_status sd, eng, [])
          else if count_buf_len sd \<noteq> 8 then (NIXL_ERR_MISMATCH, eng, [])
          else
            (case count_getBuf sd of
               (status, sz) \<Rightarrow>
                 if status \<noteq> NIXL_SUCCESS then (status, eng, [])
                 else
                   (case loadRemoteConnInfo_loop env sd agent
                           (concat (map (\<lambda>idx. map (\<lambda>e. (idx, e)) [0..<engines_size eng]) [0..<sz]))
                           [] of
                      (Some err, calls) \<Rightarrow> (err, eng, calls)
                    | (None, calls) \<Rightarrow>
                        (NIXL_SUCCESS,
                         eng\<lparr>remoteConnMap := (remoteConnMap eng)
                               (agent \<mapsto> \<lparr>conn_remoteAgent = agent, num_engines = word_of_nat sz\<rparr>)\<rparr>,
                         calls))))"

section \<open>Engine of engines: requests\<close>

text \<open>An element of the distribution matrix of \<^verbatim>\<open>nixlUcxMoRequestH\<close>. The descriptor
  lists and the request of the inner engine are pointers, \<open>None\<close> when null; the inner
  engine's metadata and request objects are opaque and stand as numbers.\<close>

record dlMatrixElem =
  in_use :: bool
  in_progress :: bool
  ldescs :: "nat nixlMetaDesc list option"
  rdescs :: "nat nixlMetaDesc list option"
  ucx_req :: "nat option"

definition new_dlMatrixElem :: dlMatrixElem where
  "new_dlMatrixElem =
     \<lparr>in_use = False, in_progress = False, ldescs = None, rdescs = None, ucx_req = None\<rparr>"

record nixlUcxMoRequestH =
  dlMatrix :: "dlMatrixElem list list"
  req_remoteAgent :: string
  notifNeed :: bool
  req_notifMsg :: string

definition new_nixlUcxMoRequestH :: "nat \<Rightarrow> nat \<Rightarrow> nixlUcxMoRequestH" where
  "new_nixlUcxMoRequestH l_eng_cnt r_eng_cnt =
     \<lparr>dlMatrix = replicate l_eng_cnt (replicate r_eng_cnt new_dlMatrixElem),
      req_remoteAgent = [], notifNeed = False, req_notifMsg = []\<rparr>"

definition set_elem :: "dlMatrixElem list list \<Rightarrow> nat \<Rightarrow> nat \<Rightarrow> dlMatrixElem \<Rightarrow> dlMatrixElem list list" where
  "set_elem mat lidx ridx e = mat[lidx := (mat ! lidx)[ridx := e]]"

text \<open>The members of the metadata classes that \<^verbatim>\<open>prepXfer\<close> reads.\<close>

record nixlUcxMoPrivateMetadata =
  priv_eidx :: "32 word"
  md :: nat

record nixlUcxMoPublicMetadata =
  pub_eidx :: "32 word"
  int_mds :: "nat list"

text \<open>
  The first loop of \<^verbatim>\<open>nixlUcxMoEngine::prepXfer\<close>, over the descriptor pairs. \<open>Returns None\<close>
  is the jump to \<^verbatim>\<open>err_clean_req\<close>. The lists have the same length when the loop is
  entered; a null metadata pointer or an index past \<^verbatim>\<open>int_mds\<close> is undefined.
\<close>

fun prepXfer_fill ::
  "nat \<Rightarrow> nat \<Rightarrow> nixlUcxMoPrivateMetadata nixlMetaDesc list \<Rightarrow>
   nixlUcxMoPublicMetadata nixlMetaDesc list \<Rightarrow> dlMatrixElem list list \<Rightarrow>
   dlMatrixElem list list option outcome" where
  "prepXfer_fill l_eng_cnt r_eng_cnt (l # local) (r # remote) mat =
     (case metadataP l of
        None \<Rightarrow> Undefined
      | Some lmd \<Rightarrow>
          (case metadataP r of
             None \<Rightarrow> Undefined
           | Some rmd \<Rightarrow>
               (let lidx = unat (priv_eidx lmd); ridx = unat (pub_eidx rmd) in
                if \<not> (lidx < l_eng_cnt \<and> ridx < r_eng_cnt) then Returns None
                else if len l \<noteq> len r then Returns None
                else if length (int_mds rmd) \<le> lidx then Undefined
                else
                  (let e = mat ! lidx ! ridx;
                       e1 = (if \<not> in_use e
                             then e\<lparr>in_use := True, ldescs := Some [], rdescs := Some []\<rparr>
                             else e);
                       ldesc = \<lparr>addr = addr l, len = len l, devId = devId l,
                                metadataP = Some (md lmd)\<rparr>;
                       rdesc = \<lparr>addr = addr r, len = len r, devId = devId r,
                                metadataP = Some (int_mds rmd ! lidx)\<rparr>;
                       e2 = e1\<lparr>ldescs := map_option (\<lambda>ds. ds @ [ldesc]) (ldescs e1),
                               rdescs := map_option (\<lambda>ds. ds @ [rdesc]) (rdescs e1)\<rparr>
                   in prepXfer_fill l_eng_cnt r_eng_cnt local remote (set_elem mat lidx ridx e2)))))"
| "prepXfer_fill l_eng_cnt r_eng_cnt [] remote mat = Returns (Some mat)"
| "prepXfer_fill l_eng_cnt r_eng_cnt (l # local) [] mat = Undefined"

text \<open>The second loop: one \<^verbatim>\<open>prepXfer\<close> of an inner engine per element in use. The first
  component of the result is the position at which a call failed.\<close>

fun prepXfer_prepare ::
  "ucx_env \<Rightarrow> string \<Rightarrow> (nat \<times> nat) list \<Rightarrow> dlMatrixElem list list \<Rightarrow> ucx_call list \<Rightarrow>
   (nat \<times> nat) option \<times> dlMatrixElem list list \<times> ucx_call list" where
  "prepXfer_prepare env agent [] mat calls = (None, mat, calls)"
| "prepXfer_prepare env agent ((lidx, ridx) # ps) mat calls =
     (let e = mat ! lidx ! ridx in
      if \<not> in_use e then prepXfer_prepare env agent ps mat calls
      else
        (case ucx_prepXfer env lidx ridx of
           (ret, h) \<Rightarrow>
             (let mat' = set_elem mat lidx ridx (e\<lparr>ucx_req := h\<rparr>);
                  calls' = calls @ [UcxPrepXfer lidx (getEngName agent ridx)]
              in if ret \<noteq> NIXL_SUCCESS then (Some (lidx, ridx), mat', calls')
                 else prepXfer_prepare env agent ps mat' calls')))"

text \<open>The calls of the clean-up at \<^verbatim>\<open>err_clean_sub_req\<close>: rows below \<open>lidx + 1\<close>, columns
  below \<open>ridx\<close>.\<close>

definition prepXfer_cleanup :: "dlMatrixElem list list \<Rightarrow> nat \<Rightarrow> nat \<Rightarrow> ucx_call list" where
  "prepXfer_cleanup mat lidx ridx =
     map (\<lambda>(l, r). UcxReleaseReqH l (ucx_req (mat ! l ! r)))
       (filter (\<lambda>(l, r). in_use (mat ! l ! r))
          (concat (map (\<lambda>l. map (\<lambda>r. (l, r)) [0..<ridx]) [0..<Suc lidx])))"

text \<open>
  \<^verbatim>\<open>nixlUcxMoEngine::prepXfer\<close>. The handle is an out-parameter: \<open>None\<close> in the result says
  that it was not assigned. The \<^verbatim>\<open>default\<close> branch of the switch over the operation
  cannot be taken for a value of the enumeration.
\<close>

definition nixlUcxMoEngine_prepXfer ::
  "ucx_env \<Rightarrow> nixlUcxMoEngine \<Rightarrow> nixl_xfer_op_t \<Rightarrow> nixlUcxMoPrivateMetadata nixlMetaDesc list \<Rightarrow>
   nixlUcxMoPublicMetadata nixlMetaDesc list \<Rightarrow> string \<Rightarrow>
   (nixl_status_t \<times> nixlUcxMoRequestH option \<times> ucx_call list) outcome" where
  "nixlUcxMoEngine_prepXfer env eng operation local remote agent =
     (if length local \<noteq> length remote then Returns (NIXL_ERR_INVALID_PARAM, None, [])
      else
        (case remoteConnMap eng agent of
           None \<Rightarrow> Returns (NIXL_ERR_INVALID_PARAM, None, [])
         | Some c \<Rightarrow>
             (let l_eng_cnt = engines_size eng;
                  r_eng_cnt = unat (num_engines c);
                  req = new_nixlUcxMoRequestH l_eng_cnt r_eng_cnt
              in (case prepXfer_fill l_eng_cnt r_eng_cnt local remote (dlMatrix req) of
                    Undefined \<Rightarrow> Undefined
                  | Blocks \<Rightarrow> Blocks
                  | Returns None \<Rightarrow> Returns (NIXL_ERR_INVALID_PARAM, None, [])
                  | Returns (Some mat) \<Rightarrow>
                      (case prepXfer_prepare env agent (positions mat) mat [] of
                         (Some (lidx, ridx), mat', calls) \<Rightarrow>
                           Returns (NIXL_ERR_INVALID_PARAM, None,
                                    calls @ prepXfer_cleanup mat' lidx ridx)
                       | (None, mat', calls) \<Rightarrow>
                           Returns (NIXL_SUCCESS, Some (req\<lparr>dlMatrix := mat'\<rparr>), calls))))))"

text \<open>The loop of \<^verbatim>\<open>nixlUcxMoEngine::postXfer\<close>. The result is the error that ended the loop
  early (if any), the matrix, the local flag \<^verbatim>\<open>in_progress\<close> and the calls made. The inner
  \<^verbatim>\<open>postXfer\<close> is called with five arguments: its \<^verbatim>\<open>opt_args\<close> is the default null pointer.\<close>

fun postXfer_loop ::
  "ucx_env \<Rightarrow> string \<Rightarrow> (nat \<times> nat) list \<Rightarrow> dlMatrixElem list list \<Rightarrow> bool \<Rightarrow> ucx_call list \<Rightarrow>
   nixl_status_t option \<times> dlMatrixElem list list \<times> bool \<times> ucx_call list" where
  "postXfer_loop env agent [] mat in_prog calls = (None, mat, in_prog, calls)"
| "postXfer_loop env agent ((lidx, ridx) # ps) mat in_prog calls =
     (let e = mat ! lidx ! ridx in
      if \<not> in_use e then postXfer_loop env agent ps mat in_prog calls
      else
        (let calls' = calls @ [UcxPostXfer lidx (getEngName agent ridx) (ucx_req e) None] in
         case ucx_postXfer env lidx ridx of
           NIXL_IN_PROG \<Rightarrow>
             postXfer_loop env agent ps (set_elem mat lidx ridx (e\<lparr>in_progress := True\<rparr>))
               True calls'
         | NIXL_SUCCESS \<Rightarrow> postXfer_loop env agent ps mat in_prog calls'
         | ret \<Rightarrow> (Some ret, mat, in_prog, calls')))"

text \<open>\<^verbatim>\<open>nixlUcxMoEngine::postXfer\<close>. A null handle, a null \<^verbatim>\<open>opt_args\<close> and \<^verbatim>\<open>engines[0]\<close>
  of an empty vector are undefined.\<close>

definition nixlUcxMoEngine_postXfer ::
  "ucx_env \<Rightarrow> nixlUcxMoEngine \<Rightarrow> nixl_xfer_op_t \<Rightarrow> string \<Rightarrow> nixlUcxMoRequestH option \<Rightarrow>
   nixl_opt_b_args_t option \<Rightarrow> (nixl_status_t \<times> nixlUcxMoRequestH \<times> ucx_call list) outcome" where
  "nixlUcxMoEngine_postXfer env eng operation agent handle opt_args =
     (case handle of
        None \<Rightarrow> Undefined
      | Some req \<Rightarrow>
          (case postXfer_loop env agent (positions (dlMatrix req)) (dlMatrix req) False [] of
             (Some ret, mat, in_prog, calls) \<Rightarrow> Returns (ret, req\<lparr>dlMatrix := mat\<rparr>, calls)
           | (None, mat, in_prog, calls) \<Rightarrow>
               (case opt_args of
                  None \<Rightarrow> Undefined
                | Some args \<Rightarrow>
                    (if in_prog then
                       Returns (NIXL_IN_PROG,
                                (if hasNotif args
                                 then req\<lparr>dlMatrix := mat, req_remoteAgent := agent,
                                          notifNeed := True, req_notifMsg := notifMsg args\<rparr>
                                 else req\<lparr>dlMatrix := mat\<rparr>),
                                calls)
                     else if hasNotif args then
                       (if engines_size eng = 0 then Undefined
                        else
                          (let calls' = calls @ [UcxGenNotif 0 (getEngName agent 0) (notifMsg args)]
                           in if ucx_genNotif env \<noteq> NIXL_SUCCESS
                              then Returns (ucx_genNotif env, req\<lparr>dlMatrix := mat\<rparr>, calls')
                              else Returns (NIXL_SUCCESS, req\<lparr>dlMatrix := mat\<rparr>, calls')))
                     else Returns (NIXL_SUCCESS, req\<lparr>dlMatrix := mat\<rparr>, calls)))))"

text \<open>The loop of \<^verbatim>\<open>nixlUcxMoEngine::checkXfer\<close>; the third component is \<^verbatim>\<open>out_ret\<close>.\<close>

fun checkXfer_loop ::
  "ucx_env \<Rightarrow> (nat \<times> nat) list \<Rightarrow> dlMatrixElem list list \<Rightarrow> nixl_status_t \<Rightarrow> ucx_call list \<Rightarrow>
   nixl_status_t option \<times> dlMatrixElem list list \<times> nixl_status_t \<times> ucx_call list" where
  "checkXfer_loop env [] mat out_ret calls = (None, mat, out_ret, calls)"
| "checkXfer_loop env ((lidx, ridx) # ps) mat out_ret calls =
     (let e = mat ! lidx ! ridx in
      if \<not> in_progress e then checkXfer_loop env ps mat out_ret calls
      else
        (let calls' = calls @ [UcxCheckXfer lidx (ucx_req e)] in
         case ucx_checkXfer env lidx ridx of
           NIXL_SUCCESS \<Rightarrow>
             checkXfer_loop env ps (set_elem mat lidx ridx (e\<lparr>in_progress := False\<rparr>))
               out_ret calls'
         | NIXL_IN_PROG \<Rightarrow> checkXfer_loop env ps mat NIXL_IN_PROG calls'
         | ret \<Rightarrow> (Some ret, mat, out_ret, calls')))"

definition nixlUcxMoEngine_checkXfer ::
  "ucx_env \<Rightarrow> nixlUcxMoEngine \<Rightarrow> nixlUcxMoRequestH option \<Rightarrow>
   (nixl_status_t \<times> nixlUcxMoRequestH \<times> ucx_call list) outcome" where
  "nixlUcxMoEngine_checkXfer env eng handle =
     (case handle of
        None \<Rightarrow> Undefined
      | Some req \<Rightarrow>
          (case checkXfer_loop env (positions (dlMatrix req)) (dlMatrix req) NIXL_SUCCESS [] of
             (Some ret, mat, out_ret, calls) \<Rightarrow> Returns (ret, req\<lparr>dlMatrix := mat\<rparr>, calls)
           | (None, mat, out_ret, calls) \<Rightarrow>
               (if out_ret = NIXL_SUCCESS \<and> notifNeed req then
                  (if engines_size eng = 0 then Undefined
                   else
                     (let calls' = calls @
                            [UcxGenNotif 0 (getEngName (req_remoteAgent req) 0) (req_notifMsg req)]
                      in if ucx_genNotif env \<noteq> NIXL_SUCCESS
                         then Returns (ucx_genNotif env, req\<lparr>dlMatrix := mat\<rparr>, calls')
                         else Returns (out_ret, req\<lparr>dlMatrix := mat\<rparr>, calls')))
                else Returns (out_ret, req\<lparr>dlMatrix := mat\<rparr>, calls))))"

text \<open>\<^verbatim>\<open>nixlUcxMoEngine::releaseReqH\<close>: the loop keeps the last status that is not
  success and goes on.\<close>

fun releaseReqH_loop ::
  "ucx_env \<Rightarrow> (nat \<times> nat) list \<Rightarrow> dlMatrixElem list list \<Rightarrow> nixl_status_t \<Rightarrow> ucx_call list \<Rightarrow>
   nixl_status_t \<times> ucx_call list" where
  "releaseReqH_loop env [] mat out_ret calls = (out_ret, calls)"
| "releaseReqH_loop env ((lidx, ridx) # ps) mat out_ret calls =
     (let e = mat ! lidx ! ridx in
      if \<not> in_use e then releaseReqH_loop env ps mat out_ret calls
      else
        releaseReqH_loop env ps mat
          (if ucx_releaseReqH env lidx ridx \<noteq> NIXL_SUCCESS
           then ucx_releaseReqH env lidx ridx else out_ret)
          (calls @ [UcxReleaseReqH lidx (ucx_req e)]))"

definition nixlUcxMoEngine_releaseReqH ::
  "ucx_env \<Rightarrow> nixlUcxMoEngine \<Rightarrow> nixlUcxMoRequestH option \<Rightarrow>
   (nixl_status_t \<times> ucx_call list) outcome" where
  "nixlUcxMoEngine_releaseReqH env eng handle =
     (case handle of
        None \<Rightarrow> Undefined
      | Some req \<Rightarrow>
          Returns (releaseReqH_loop env (positions (dlMatrix req)) (dlMatrix req) NIXL_SUCCESS []))"

text \<open>
  Modelled from the spec: \<^verbatim>\<open>nixlUcxEngine::getNotifs\<close> is only declared in the sources
  (\<^verbatim>\<open>ucx_backend.h\<close>, with the member \<^verbatim>\<open>notif_list_t notifMainList\<close>). The spec says that an
  active-message handler appends \<open>(remote_agent, message)\<close> to a per-engine list, that
  \<^verbatim>\<open>getNotifs\<close> drains it, and that \<^verbatim>\<open>getNotifs\<close> never suspends. It names no status: the
  status is taken from \<open>ucx_env\<close>.
\<close>

record nixlUcxEngine =
  ucx_notifMainList :: notif_list_t

definition nixlUcxEngine_getNotifs ::
  "nixl_status_t \<Rightarrow> nixlUcxEngine \<Rightarrow> notif_list_t \<Rightarrow>
   nixl_status_t \<times> nixlUcxEngine \<times> notif_list_t" where
  "nixlUcxEngine_getNotifs status e notif_list =
     (status, e\<lparr>ucx_notifMainList := []\<rparr>, notif_list @ ucx_notifMainList e)"

text \<open>\<^verbatim>\<open>nixlUcxMoEngine::getNotifs\<close> hands the call to \<^verbatim>\<open>engines[0]\<close>; the vector of inner
  engines is the second argument, and \<^verbatim>\<open>engines[0]\<close> of an empty vector is undefined. The
  result is the status, the vector, the caller's list and the calls made.\<close>

definition nixlUcxMoEngine_getNotifs ::
  "ucx_env \<Rightarrow> nixlUcxEngine list \<Rightarrow> notif_list_t \<Rightarrow>
   (nixl_status_t \<times> nixlUcxEngine list \<times> notif_list_t \<times> ucx_call list) outcome" where
  "nixlUcxMoEngine_getNotifs env engines notif_list =
     (case engines of
        [] \<Rightarrow> Undefined
      | e # es \<Rightarrow>
          (case nixlUcxEngine_getNotifs (ucx_getNotifs env) e notif_list of
             (status, e', notif_list') \<Rightarrow>
               Returns (status, e' # es, notif_list', [UcxGetNotifs 0])))"

text \<open>The calls of a trace that send a notification through an inner engine.\<close>

definition is_genNotif :: "ucx_call \<Rightarrow> bool" where
  "is_genNotif call = (case call of UcxGenNotif e a m \<Rightarrow> True | _ \<Rightarrow> False)"

section \<open>Concrete inputs\<close>

text \<open>An engine of agent A with two data rails and one control rail, no progress thread,
  and an established connection to agent B; a rail manager environment in which every
  call succeeds; a notification from B that names the XFER_IDs 5 and 6.\<close>

definition example_conn :: nixlLibfabricConnection where
  "example_conn =
     \<lparr>remoteAgent = ''B'', rail_remote_addr_list = [10, 11],
      control_rail_remote_addr_list = [20], src_ep_names = [''d0'', ''d1''],
      control_ep_names = [''c0''], agent_index = 1, overall_state = CONNECTED, object_id = 1\<rparr>"

definition example_rail_manager :: nixlLibfabricRailManager where
  "example_rail_manager =
     \<lparr>rm_striping_threshold = 1048576, num_data_rails = 2, num_control_rails = 1\<rparr>"

definition example_engine :: nixlLibfabricEngine where
  "example_engine =
     \<lparr>localAgent = ''A'', progress_thread_enabled = False, striping_threshold = 1048576,
      rail_manager = example_rail_manager,
      connections = [''B'' \<mapsto> Some example_conn],
      agent_names = [''A'', ''B''], notifMainList = [], received_remote_writes = {},
      pending_notifications = []\<rparr>"

definition example_env :: rail_manager_env where
  "example_env =
     \<lparr>discovered_data_rails = 2, discovered_control_rails = 1,
      data_rail_ep_name = (\<lambda>i. ''d''), control_rail_ep_name = (\<lambda>i. ''c''),
      deserializeConnectionInfo = (\<lambda>prefix blob. (NIXL_SUCCESS, [''e0'', ''e1''], [''e2''])),
      insertAllAddresses = (\<lambda>t eps. (NIXL_SUCCESS, map (\<lambda>e. 7) eps, eps)),
      postControlMessage = NIXL_SUCCESS\<rparr>"

definition example_notif :: BinaryNotification where
  "example_notif =
     \<lparr>wire_size = 64, agent_name = ''B'', notif_message = ''done'', xfer_ids = [5, 6]\<rparr>"

text \<open>Initialisation parameters that ask for a striping threshold of 2 MiB; a descriptor
  pair of the multi-rail engine whose remote metadata points at the connection to B; a
  \<^verbatim>\<open>postXfer\<close> environment in which every descriptor is posted as one sub-request and the
  manual progress finds no completion.\<close>

definition example_init_params :: nixlBackendInitParams where
  "example_init_params =
     \<lparr>init_localAgent = ''A'', customParams = [''striping_threshold'' \<mapsto> ''2097152''],
      enableProgTh = False, pthrDelay = 0\<rparr>"

definition example_local_desc :: "nixlLibfabricPrivateMetadata nixlMetaDesc" where
  "example_local_desc =
     \<lparr>addr = 4096, len = 1024, devId = 0,
      metadataP = Some \<lparr>selected_rails = [0, 1], rail_mr_list = [1, 2], rail_key_list = [3, 4]\<rparr>\<rparr>"

definition example_remote_desc :: "nixlLibfabricPublicMetadata nixlMetaDesc" where
  "example_remote_desc =
     \<lparr>addr = 8192, len = 1024, devId = 0,
      metadataP = Some \<lparr>rail_remote_key_list = [5, 6], remote_buf_addr = 8192,
                         conn = Some example_conn\<rparr>\<rparr>"

definition example_postXfer_env :: postXfer_env where
  "example_postXfer_env =
     \<lparr>establishConnection_result = Some NIXL_SUCCESS,
      control_request_allocated = True,
      prepareAndSubmitTransfer = (\<lambda>desc_idx. (NIXL_SUCCESS, [word_of_nat desc_idx])),
      manual_progress = \<lparr>progress_status = NIXL_IN_PROG, handle_completions = 0,
                          arrived_xfer_ids = []\<rparr>,
      progress_thread_completions = 0\<rparr>"

text \<open>An engine of engines with two inner engines that knows agent B with two engines,
  and inner engines whose transfers on row 0 stay in progress when posted.\<close>

definition example_ucx_env :: ucx_env where
  "example_ucx_env =
     \<lparr>ucx_loadRemoteConnInfo = (\<lambda>idx e. NIXL_SUCCESS),
      ucx_prepXfer = (\<lambda>lidx ridx. (NIXL_SUCCESS, Some (10 * lidx + ridx))),
      ucx_postXfer = (\<lambda>lidx ridx. if lidx = 0 then NIXL_IN_PROG else NIXL_SUCCESS),
      ucx_checkXfer = (\<lambda>lidx ridx. NIXL_SUCCESS),
      ucx_releaseReqH = (\<lambda>lidx ridx. NIXL_SUCCESS),
      ucx_genNotif = NIXL_SUCCESS,
      ucx_getNotifs = NIXL_SUCCESS\<rparr>"

definition example_mo_engine :: nixlUcxMoEngine where
  "example_mo_engine =
     \<lparr>engines_size = 2,
      remoteConnMap = [''B'' \<mapsto> \<lparr>conn_remoteAgent = ''B'', num_engines = 2\<rparr>]\<rparr>"

text \<open>The inner engines of that engine of engines: the first holds one pending
  notification.\<close>

definition example_engines :: "nixlUcxEngine list" where
  "example_engines =
     [\<lparr>ucx_notifMainList = [(''B'', ''hi'')]\<rparr>, \<lparr>ucx_notifMainList = []\<rparr>]"




text \<open>A prepared request of the engine of engines with two elements in use, and optional
  arguments that ask for a notification.\<close>

definition example_used_elem :: "nat \<Rightarrow> dlMatrixElem" where
  "example_used_elem h =
     \<lparr>in_use = True, in_progress = False, ldescs = Some [], rdescs = Some [], ucx_req = Some h\<rparr>"

definition example_mo_req :: nixlUcxMoRequestH where
  "example_mo_req =
     \<lparr>dlMatrix = [[example_used_elem 0, new_dlMatrixElem],
                  [new_dlMatrixElem, example_used_elem 11]],
      req_remoteAgent = [], notifNeed = False, req_notifMsg = []\<rparr>"

definition example_opt_args :: nixl_opt_b_args_t where
  "example_opt_args = \<lparr>hasNotif = True, notifMsg = ''test''\<rparr>"

section \<open>Notification queuing of the multi-rail engine\<close>

lemma allXferIdsReceived_iff:
  "allXferIdsReceived received expected \<longleftrightarrow> set expected \<subseteq> received"
  by (induction expected) auto

lemma checkPendingNotifications_loop_eq:
  "checkPendingNotifications_loop received ps main =
     (filter (\<lambda>p. \<not> set (expected_xfer_ids p) \<subseteq> received) ps,
      main @ map (\<lambda>p. (remote_agent p, message p))
               (filter (\<lambda>p. set (expected_xfer_ids p) \<subseteq> received) ps))"
  by (induction ps arbitrary: main) (simp_all add: allXferIdsReceived_iff)

lemma getXferIds_set: "set (getXferIds n) = set (xfer_ids n)"
  by (simp add: getXferIds_def)

lemma getXferIds_Nil: "getXferIds n = [] \<longleftrightarrow> xfer_ids n = []"
  by (simp add: getXferIds_def)

text \<open>
  Claim C1. A well-sized notification with no XFER_ID is appended to the main list at
  once. One with XFER_IDs is appended at once exactly when all of them are in the
  received set; otherwise the main list stays as it is and the notification joins the
  pending queue. An arriving XFER_ID is added to the received set, and exactly the queued
  notifications whose ids are all in the enlarged set move, in queue order, to the end of
  the main list; the others stay queued.
\<close>

theorem notification_gated_on_xfer_ids:
  assumes "wire_size n = sz"
  shows "(xfer_ids n = [] \<longrightarrow>
            processNotification sz n eng =
              eng\<lparr>notifMainList := notifMainList eng @ [(agent_name n, notif_message n)]\<rparr>)
       \<and> (xfer_ids n \<noteq> [] \<and> set (xfer_ids n) \<subseteq> received_remote_writes eng \<longrightarrow>
            processNotification sz n eng =
              eng\<lparr>notifMainList := notifMainList eng @ [(agent_name n, notif_message n)]\<rparr>)
       \<and> (xfer_ids n \<noteq> [] \<and> \<not> set (xfer_ids n) \<subseteq> received_remote_writes eng \<longrightarrow>
            processNotification sz n eng =
              eng\<lparr>pending_notifications := pending_notifications eng @
                    [\<lparr>remote_agent = agent_name n, message = notif_message n,
                      expected_xfer_ids = getXferIds n\<rparr>]\<rparr>)
       \<and> received_remote_writes (addReceivedXferId x eng) = insert x (received_remote_writes eng)
       \<and> notifMainList (addReceivedXferId x eng) =
            notifMainList eng @ map (\<lambda>p. (remote_agent p, message p))
              (filter (\<lambda>p. set (expected_xfer_ids p) \<subseteq> insert x (received_remote_writes eng))
                 (pending_notifications eng))
       \<and> pending_notifications (addReceivedXferId x eng) =
            filter (\<lambda>p. \<not> set (expected_xfer_ids p) \<subseteq> insert x (received_remote_writes eng))
              (pending_notifications eng)"
  using assms
  by (simp add: processNotification_def addReceivedXferId_def checkPendingNotifications_def
      checkPendingNotifications_loop_eq allXferIdsReceived_iff getXferIds_set getXferIds_Nil Let_def)

text \<open>The notification of ids 5 and 6 is queued on arrival, stays queued when 5 arrives,
  and is delivered when 6 arrives; it is delivered at once when both ids are already
  there, or when it names no id.\<close>

theorem notification_gated_on_xfer_ids_witness:
  "notifMainList (processNotification 64 example_notif example_engine) = []
   \<and> pending_notifications (processNotification 64 example_notif example_engine) =
       [\<lparr>remote_agent = ''B'', message = ''done'', expected_xfer_ids = [5, 6]\<rparr>]
   \<and> notifMainList (addReceivedXferId 5 (processNotification 64 example_notif example_engine)) = []
   \<and> notifMainList (addReceivedXferId 6
         (addReceivedXferId 5 (processNotification 64 example_notif example_engine))) =
       [(''B'', ''done'')]
   \<and> pending_notifications (addReceivedXferId 6
         (addReceivedXferId 5 (processNotification 64 example_notif example_engine))) = []
   \<and> notifMainList (processNotification 64 example_notif
         (example_engine\<lparr>received_remote_writes := {5, 6}\<rparr>)) = [(''B'', ''done'')]
   \<and> notifMainList (processNotification 64 (example_notif\<lparr>xfer_ids := []\<rparr>) example_engine) =
       [(''B'', ''done'')]"
proof -
  have sz: "wire_size example_notif = 64" "wire_size (example_notif\<lparr>xfer_ids := []\<rparr>) = 64"
    by (simp_all add: example_notif_def)
  note q = notification_gated_on_xfer_ids [OF sz(1), of example_engine 5]
  note a5 = notification_gated_on_xfer_ids [OF sz(1),
      of "processNotification 64 example_notif example_engine" 5]
  note a6 = notification_gated_on_xfer_ids [OF sz(1),
      of "addReceivedXferId 5 (processNotification 64 example_notif example_engine)" 6]
  note now = notification_gated_on_xfer_ids [OF sz(1),
      of "example_engine\<lparr>received_remote_writes := {5, 6}\<rparr>" 5]
  note plain = notification_gated_on_xfer_ids [OF sz(2), of example_engine 5]
  have 1: "processNotification 64 example_notif example_engine =
      example_engine\<lparr>pending_notifications :=
        [\<lparr>remote_agent = ''B'', message = ''done'', expected_xfer_ids = [5, 6]\<rparr>]\<rparr>"
    using q by (simp add: example_notif_def example_engine_def getXferIds_def)
  show ?thesis
    using a5 a6 now plain
    by (simp add: 1) (simp add: example_notif_def example_engine_def)
qed

section \<open>A handle that was never posted\<close>

lemma run_completion_callbacks_0: "run_completion_callbacks 0 h = h"
  by (simp add: run_completion_callbacks_def)

lemma prepXfer_handle:
  "nixlLibfabricEngine_prepXfer eng operation local remote agent = (st, Some h) \<Longrightarrow>
     st = NIXL_SUCCESS \<and> h = new_nixlLibfabricBackendH"
  by (auto simp: nixlLibfabricEngine_prepXfer_def split: option.splits)

text \<open>
  Claim C10, as amended. A handle that the multi-rail \<^verbatim>\<open>prepXfer\<close> returned, and for which
  therefore no completion callback can run, has both counters at zero and is completed.
  \<^verbatim>\<open>checkXfer\<close> on it never returns \<^verbatim>\<open>NIXL_IN_PROG\<close>: it returns \<^verbatim>\<open>NIXL_SUCCESS\<close>, except when
  the progress thread is disabled and the data-rail progress that \<^verbatim>\<open>checkXfer\<close> runs first
  reports an error, which is then returned.
\<close>

theorem fresh_handle_checkXfer:
  assumes "nixlLibfabricEngine_prepXfer eng operation local remote agent = (st, Some h)"
  shows "completed_requests h = 0 \<and> total_requests_used h = 0 \<and> is_completed h
       \<and> fst (nixlLibfabricEngine_checkXfer eng (pr\<lparr>handle_completions := 0\<rparr>) h) =
           (if \<not> progress_thread_enabled eng \<and> progress_status pr \<noteq> NIXL_SUCCESS
                \<and> progress_status pr \<noteq> NIXL_IN_PROG
            then progress_status pr else NIXL_SUCCESS)
       \<and> fst (nixlLibfabricEngine_checkXfer eng (pr\<lparr>handle_completions := 0\<rparr>) h) \<noteq> NIXL_IN_PROG"
proof -
  from assms have h: "h = new_nixlLibfabricBackendH" by (rule prepXfer_handle [THEN conjunct2])
  show ?thesis
    by (simp add: h new_nixlLibfabricBackendH_def is_completed_def
        nixlLibfabricEngine_checkXfer_def run_completion_callbacks_0)
qed

theorem fresh_handle_checkXfer_witness:
  "nixlLibfabricEngine_prepXfer example_engine NIXL_WRITE [] [] ''B'' =
     (NIXL_SUCCESS, Some new_nixlLibfabricBackendH)
   \<and> is_completed new_nixlLibfabricBackendH
   \<and> fst (nixlLibfabricEngine_checkXfer example_engine
        \<lparr>progress_status = NIXL_IN_PROG, handle_completions = 0, arrived_xfer_ids = []\<rparr>
        new_nixlLibfabricBackendH) = NIXL_SUCCESS"
proof -
  have p: "nixlLibfabricEngine_prepXfer example_engine NIXL_WRITE [] [] ''B'' =
     (NIXL_SUCCESS, Some new_nixlLibfabricBackendH)"
    by (simp add: nixlLibfabricEngine_prepXfer_def example_engine_def)
  show ?thesis
    using p fresh_handle_checkXfer [OF p,
        of "\<lparr>progress_status = NIXL_IN_PROG, handle_completions = 0, arrived_xfer_ids = []\<rparr>"]
    by simp
qed

text \<open>The claim as it was stated fails when the progress thread is disabled and the
  progress call fails: \<^verbatim>\<open>checkXfer\<close> on the fresh handle returns the error.\<close>

theorem fresh_handle_checkXfer_counterexample:
  "nixlLibfabricEngine_prepXfer example_engine NIXL_WRITE [] [] ''B'' =
     (NIXL_SUCCESS, Some new_nixlLibfabricBackendH)
   \<and> fst (nixlLibfabricEngine_checkXfer example_engine
        \<lparr>progress_status = NIXL_ERR_BACKEND, handle_completions = 0, arrived_xfer_ids = []\<rparr>
        new_nixlLibfabricBackendH) = NIXL_ERR_BACKEND"
  by (simp add: nixlLibfabricEngine_prepXfer_def example_engine_def
      nixlLibfabricEngine_checkXfer_def run_completion_callbacks_0)

section \<open>Draining the notification list\<close>

lemma run_xfer_id_callbacks_Nil: "run_xfer_id_callbacks [] eng = eng"
  by (simp add: run_xfer_id_callbacks_def)

lemma run_xfer_id_callbacks_thread:
  "progress_thread_enabled (run_xfer_id_callbacks ids eng) = progress_thread_enabled eng"
proof -
  have "progress_thread_enabled (foldl (\<lambda>e x. addReceivedXferId x e) eng ids) =
      progress_thread_enabled eng"
    by (induction ids arbitrary: eng)
      (simp_all add: addReceivedXferId_def checkPendingNotifications_def split: prod.splits)
  then show ?thesis by (simp add: run_xfer_id_callbacks_def)
qed

text \<open>
  Claim C9, as amended. A call of the multi-rail \<^verbatim>\<open>getNotifs\<close> returns whenever its one call
  into the rail manager does, and always when the progress thread is enabled: it suspends
  only if that call does. When the progress thread is enabled, or the manual data-rail
  progress of the call reports success or in-progress, it appends the whole main list (as
  it stands after that progress) to the caller's list and leaves it empty; the status is
  success exactly when something was handed over; a call that follows with no XFER_ID
  arriving hands nothing over. The exception: when the progress thread is disabled and the
  progress reports an error, \<^verbatim>\<open>getNotifs\<close> returns that error, the caller's list is unchanged
  and the main list is not emptied. The engine of engines, with the inner engine as the
  spec describes it, returns, appends the whole list of its first inner engine to the
  caller's list, leaves it empty and touches no other inner engine; a call that follows
  hands nothing over.
\<close>

theorem getNotifs_drains:
  "(progress_thread_enabled eng \<or> progress_status pr = NIXL_SUCCESS
      \<or> progress_status pr = NIXL_IN_PROG \<longrightarrow>
      (\<exists>eng1. eng1 = (if progress_thread_enabled eng then eng
                       else run_xfer_id_callbacks (arrived_xfer_ids pr) eng)
        \<and> nixlLibfabricEngine_getNotifs eng (Returns pr) l =
            Returns (if notifMainList eng1 = [] then NIXL_IN_PROG else NIXL_SUCCESS,
                     eng1\<lparr>notifMainList := []\<rparr>, l @ notifMainList eng1)
        \<and> nixlLibfabricEngine_getNotifs (eng1\<lparr>notifMainList := []\<rparr>)
              (Returns (pr2\<lparr>arrived_xfer_ids := []\<rparr>)) l2 =
            Returns (if \<not> progress_thread_enabled eng \<and> progress_status pr2 \<noteq> NIXL_SUCCESS
                     then progress_status pr2 else NIXL_IN_PROG,
                     eng1\<lparr>notifMainList := []\<rparr>, l2)))
   \<and> (\<not> progress_thread_enabled eng \<and> progress_status pr \<noteq> NIXL_SUCCESS
      \<and> progress_status pr \<noteq> NIXL_IN_PROG \<longrightarrow>
      nixlLibfabricEngine_getNotifs eng (Returns pr) l =
        Returns (progress_status pr, run_xfer_id_callbacks (arrived_xfer_ids pr) eng, l))
   \<and> (progress_thread_enabled eng \<longrightarrow>
      nixlLibfabricEngine_getNotifs eng progress l =
        Returns (if notifMainList eng = [] then NIXL_IN_PROG else NIXL_SUCCESS,
                 eng\<lparr>notifMainList := []\<rparr>, l @ notifMainList eng))
   \<and> (nixlLibfabricEngine_getNotifs eng progress l = Blocks \<longleftrightarrow>
        \<not> progress_thread_enabled eng \<and> progress = Blocks)
   \<and> nixlUcxMoEngine_getNotifs uenv (e # es) l =
        Returns (ucx_getNotifs uenv, e\<lparr>ucx_notifMainList := []\<rparr> # es,
                 l @ ucx_notifMainList e, [UcxGetNotifs 0])
   \<and> nixlUcxMoEngine_getNotifs uenv (e\<lparr>ucx_notifMainList := []\<rparr> # es) l2 =
        Returns (ucx_getNotifs uenv, e\<lparr>ucx_notifMainList := []\<rparr> # es, l2, [UcxGetNotifs 0])"
proof -
  have drain: "progress_thread_enabled eng \<or> progress_status pr = NIXL_SUCCESS
      \<or> progress_status pr = NIXL_IN_PROG \<Longrightarrow>
      nixlLibfabricEngine_getNotifs eng (Returns pr) l =
        Returns (if notifMainList (if progress_thread_enabled eng then eng
                       else run_xfer_id_callbacks (arrived_xfer_ids pr) eng) = []
                 then NIXL_IN_PROG else NIXL_SUCCESS,
                 (if progress_thread_enabled eng then eng
                  else run_xfer_id_callbacks (arrived_xfer_ids pr) eng)\<lparr>notifMainList := []\<rparr>,
                 l @ notifMainList (if progress_thread_enabled eng then eng
                       else run_xfer_id_callbacks (arrived_xfer_ids pr) eng))"
    by (auto simp: nixlLibfabricEngine_getNotifs_def getNotifs_locked_def Let_def)
  have again: "nixlLibfabricEngine_getNotifs
        ((if progress_thread_enabled eng then eng
          else run_xfer_id_callbacks (arrived_xfer_ids pr) eng)\<lparr>notifMainList := []\<rparr>)
        (Returns (pr2\<lparr>arrived_xfer_ids := []\<rparr>)) l2 =
      Returns (if \<not> progress_thread_enabled eng \<and> progress_status pr2 \<noteq> NIXL_SUCCESS
               then progress_status pr2 else NIXL_IN_PROG,
               (if progress_thread_enabled eng then eng
                else run_xfer_id_callbacks (arrived_xfer_ids pr) eng)\<lparr>notifMainList := []\<rparr>, l2)"
    by (auto simp: nixlLibfabricEngine_getNotifs_def getNotifs_locked_def Let_def
        run_xfer_id_callbacks_Nil run_xfer_id_callbacks_thread)
  have err: "\<not> progress_thread_enabled eng \<and> progress_status pr \<noteq> NIXL_SUCCESS
      \<and> progress_status pr \<noteq> NIXL_IN_PROG \<Longrightarrow>
      nixlLibfabricEngine_getNotifs eng (Returns pr) l =
        Returns (progress_status pr, run_xfer_id_callbacks (arrived_xfer_ids pr) eng, l)"
    by (simp add: nixlLibfabricEngine_getNotifs_def Let_def)
  have thread: "progress_thread_enabled eng \<Longrightarrow>
      nixlLibfabricEngine_getNotifs eng progress l =
        Returns (if notifMainList eng = [] then NIXL_IN_PROG else NIXL_SUCCESS,
                 eng\<lparr>notifMainList := []\<rparr>, l @ notifMainList eng)"
    by (simp add: nixlLibfabricEngine_getNotifs_def getNotifs_locked_def Let_def)
  have blocks: "nixlLibfabricEngine_getNotifs eng progress l = Blocks \<longleftrightarrow>
      \<not> progress_thread_enabled eng \<and> progress = Blocks"
    by (simp add: nixlLibfabricEngine_getNotifs_def Let_def split: outcome.splits)
  have mo: "nixlUcxMoEngine_getNotifs uenv (e # es) l =
      Returns (ucx_getNotifs uenv, e\<lparr>ucx_notifMainList := []\<rparr> # es,
               l @ ucx_notifMainList e, [UcxGetNotifs 0])"
    by (simp add: nixlUcxMoEngine_getNotifs_def nixlUcxEngine_getNotifs_def)
  have mo2: "nixlUcxMoEngine_getNotifs uenv (e\<lparr>ucx_notifMainList := []\<rparr> # es) l2 =
      Returns (ucx_getNotifs uenv, e\<lparr>ucx_notifMainList := []\<rparr> # es, l2, [UcxGetNotifs 0])"
    by (simp add: nixlUcxMoEngine_getNotifs_def nixlUcxEngine_getNotifs_def)
  from drain again err thread blocks mo mo2 show ?thesis by blast
qed

theorem getNotifs_drains_witness:
  "nixlLibfabricEngine_getNotifs (example_engine\<lparr>notifMainList := [(''B'', ''done'')]\<rparr>)
      (Returns \<lparr>progress_status = NIXL_IN_PROG, handle_completions = 0, arrived_xfer_ids = []\<rparr>)
      [(''C'', ''old'')] =
     Returns (NIXL_SUCCESS, example_engine\<lparr>notifMainList := []\<rparr>,
              [(''C'', ''old''), (''B'', ''done'')])
   \<and> nixlLibfabricEngine_getNotifs (example_engine\<lparr>notifMainList := []\<rparr>)
      (Returns \<lparr>progress_status = NIXL_IN_PROG, handle_completions = 0, arrived_xfer_ids = []\<rparr>)
      [] =
     Returns (NIXL_IN_PROG, example_engine\<lparr>notifMainList := []\<rparr>, [])
   \<and> nixlLibfabricEngine_getNotifs (example_engine\<lparr>notifMainList := [(''B'', ''done'')]\<rparr>)
      (Returns \<lparr>progress_status = NIXL_ERR_BACKEND, handle_completions = 0,
                arrived_xfer_ids = []\<rparr>)
      [(''C'', ''old'')] =
     Returns (NIXL_ERR_BACKEND, example_engine\<lparr>notifMainList := [(''B'', ''done'')]\<rparr>,
              [(''C'', ''old'')])
   \<and> nixlLibfabricEngine_getNotifs
      (example_engine\<lparr>progress_thread_enabled := True, notifMainList := [(''B'', ''done'')]\<rparr>)
      Blocks [] =
     Returns (NIXL_SUCCESS, example_engine\<lparr>progress_thread_enabled := True, notifMainList := []\<rparr>,
              [(''B'', ''done'')])
   \<and> nixlUcxMoEngine_getNotifs example_ucx_env example_engines [] =
       Returns (NIXL_SUCCESS, [\<lparr>ucx_notifMainList = []\<rparr>, \<lparr>ucx_notifMainList = []\<rparr>],
                [(''B'', ''hi'')], [UcxGetNotifs 0])
   \<and> nixlUcxMoEngine_getNotifs example_ucx_env
        [\<lparr>ucx_notifMainList = []\<rparr>, \<lparr>ucx_notifMainList = []\<rparr>] [] =
       Returns (NIXL_SUCCESS, [\<lparr>ucx_notifMainList = []\<rparr>, \<lparr>ucx_notifMainList = []\<rparr>],
                [], [UcxGetNotifs 0])"
proof -
  let ?in_prog = "\<lparr>progress_status = NIXL_IN_PROG, handle_completions = 0, arrived_xfer_ids = []\<rparr>"
  let ?failed = "\<lparr>progress_status = NIXL_ERR_BACKEND, handle_completions = 0,
                  arrived_xfer_ids = []\<rparr>"
  note t1 = getNotifs_drains [where eng = "example_engine\<lparr>notifMainList := [(''B'', ''done'')]\<rparr>"
      and pr = ?in_prog and l = "[(''C'', ''old'')]" and ?pr2.0 = ?in_prog and ?l2.0 = "[]",
      THEN conjunct1]
  note t4 = getNotifs_drains [where l = "[]" and ?l2.0 = "[]"
      and e = "\<lparr>ucx_notifMainList = [(''B'', ''hi'')]\<rparr>" and es = "[\<lparr>ucx_notifMainList = []\<rparr>]"
      and uenv = example_ucx_env, THEN conjunct2, THEN conjunct2, THEN conjunct2, THEN conjunct2]
  note t2 = getNotifs_drains [where eng = "example_engine\<lparr>notifMainList := [(''B'', ''done'')]\<rparr>"
      and pr = ?failed and l = "[(''C'', ''old'')]", THEN conjunct2, THEN conjunct1]
  note t3 = getNotifs_drains [where
      eng = "example_engine\<lparr>progress_thread_enabled := True, notifMainList := [(''B'', ''done'')]\<rparr>"
      and progress = Blocks and l = "[]", THEN conjunct2, THEN conjunct2, THEN conjunct1]
  have w1: "nixlLibfabricEngine_getNotifs (example_engine\<lparr>notifMainList := [(''B'', ''done'')]\<rparr>)
      (Returns ?in_prog) [(''C'', ''old'')] =
     Returns (NIXL_SUCCESS, example_engine\<lparr>notifMainList := []\<rparr>,
              [(''C'', ''old''), (''B'', ''done'')])"
    and w2: "nixlLibfabricEngine_getNotifs (example_engine\<lparr>notifMainList := []\<rparr>)
      (Returns ?in_prog) [] = Returns (NIXL_IN_PROG, example_engine\<lparr>notifMainList := []\<rparr>, [])"
    using t1 by (simp_all add: example_engine_def run_xfer_id_callbacks_Nil)
  have w3: "nixlLibfabricEngine_getNotifs (example_engine\<lparr>notifMainList := [(''B'', ''done'')]\<rparr>)
      (Returns ?failed) [(''C'', ''old'')] =
     Returns (NIXL_ERR_BACKEND, example_engine\<lparr>notifMainList := [(''B'', ''done'')]\<rparr>,
              [(''C'', ''old'')])"
    using t2 by (simp add: example_engine_def run_xfer_id_callbacks_Nil)
  have w4: "nixlLibfabricEngine_getNotifs
      (example_engine\<lparr>progress_thread_enabled := True, notifMainList := [(''B'', ''done'')]\<rparr>)
      Blocks [] =
     Returns (NIXL_SUCCESS, example_engine\<lparr>progress_thread_enabled := True, notifMainList := []\<rparr>,
              [(''B'', ''done'')])"
    using t3 by (simp add: example_engine_def)
  have w5: "nixlUcxMoEngine_getNotifs example_ucx_env example_engines [] =
       Returns (NIXL_SUCCESS, [\<lparr>ucx_notifMainList = []\<rparr>, \<lparr>ucx_notifMainList = []\<rparr>],
                [(''B'', ''hi'')], [UcxGetNotifs 0])"
    and w6: "nixlUcxMoEngine_getNotifs example_ucx_env
        [\<lparr>ucx_notifMainList = []\<rparr>, \<lparr>ucx_notifMainList = []\<rparr>] [] =
       Returns (NIXL_SUCCESS, [\<lparr>ucx_notifMainList = []\<rparr>, \<lparr>ucx_notifMainList = []\<rparr>],
                [], [UcxGetNotifs 0])"
    using t4 by (simp_all add: example_engines_def example_ucx_env_def)
  show ?thesis
    by (rule conjI [OF w1 conjI [OF w2 conjI [OF w3 conjI [OF w4 conjI [OF w5 w6]]]]])
qed

text \<open>The claim as it was stated fails when the progress thread is disabled and the
  progress call fails: the call returns, but the pending pair is not handed over and the
  internal list is not emptied.\<close>

theorem getNotifs_drains_counterexample:
  "nixlLibfabricEngine_getNotifs (example_engine\<lparr>notifMainList := [(''B'', ''done'')]\<rparr>)
      (Returns \<lparr>progress_status = NIXL_ERR_BACKEND, handle_completions = 0,
                arrived_xfer_ids = []\<rparr>) [] =
     Returns (NIXL_ERR_BACKEND, example_engine\<lparr>notifMainList := [(''B'', ''done'')]\<rparr>, [])"
  by (simp add: nixlLibfabricEngine_getNotifs_def example_engine_def run_xfer_id_callbacks_Nil)

section \<open>The endpoint state machine\<close>

lemma ep_step_failed:
  "state (ep_step op ep) = NIXL_UCX_EP_STATE_FAILED \<Longrightarrow> state ep \<noteq> NIXL_UCX_EP_STATE_FAILED \<Longrightarrow>
     (\<exists>ucp_ep status c. op = Err_cb ucp_ep status c) \<and> state ep = NIXL_UCX_EP_STATE_CONNECTED"
  by (cases op; cases "state ep")
     (auto simp: err_cb_def closeImpl_def disconnect_nb_def setState_def
        split: ucs_status_ptr_t.splits)

text \<open>
  Claim C8, as amended. An operation on an endpoint takes it into \<open>FAILED\<close> only if it is
  the error callback and the endpoint was \<open>CONNECTED\<close>; the constructor yields a
  \<open>CONNECTED\<close> endpoint. The callback on a \<open>CONNECTED\<close> endpoint sets \<open>FAILED\<close> and first
  force-closes the endpoint. On an endpoint in \<open>FAILED\<close>, \<^verbatim>\<open>closeImpl\<close> makes no transport
  call and returns \<^verbatim>\<open>NIXL_ERR_REMOTE_DISCONNECT\<close>, and \<^verbatim>\<open>disconnect_nb\<close> makes no transport
  call and returns \<^verbatim>\<open>NIXL_SUCCESS\<close>. In every state but \<open>CONNECTED\<close> the callback changes
  nothing and calls nothing.
\<close>

theorem endpoint_failed_state:
  "(state (ep_step op ep) = NIXL_UCX_EP_STATE_FAILED \<and> state ep \<noteq> NIXL_UCX_EP_STATE_FAILED \<longrightarrow>
      (\<exists>ucp_ep status c. op = Err_cb ucp_ep status c) \<and> state ep = NIXL_UCX_EP_STATE_CONNECTED)
   \<and> (nixlUcxEp_ctor create_status new_eph = Some ep0 \<longrightarrow> state ep0 = NIXL_UCX_EP_STATE_CONNECTED)
   \<and> (state ep = NIXL_UCX_EP_STATE_CONNECTED \<longrightarrow>
        state (fst (err_cb ep u s c)) = NIXL_UCX_EP_STATE_FAILED
        \<and> hd (snd (err_cb ep u s c)) = Ucp_ep_close_nb_FORCE u)
   \<and> (state ep = NIXL_UCX_EP_STATE_FAILED \<longrightarrow>
        closeImpl flags c ep = (NIXL_ERR_REMOTE_DISCONNECT, ep\<lparr>eph := None\<rparr>, [])
        \<and> disconnect_nb c ep = (NIXL_SUCCESS, ep\<lparr>eph := None\<rparr>, []))
   \<and> (state ep \<noteq> NIXL_UCX_EP_STATE_CONNECTED \<longrightarrow> err_cb ep u s c = (ep, []))"
proof -
  have a: "state (ep_step op ep) = NIXL_UCX_EP_STATE_FAILED \<and> state ep \<noteq> NIXL_UCX_EP_STATE_FAILED \<longrightarrow>
      (\<exists>ucp_ep status c. op = Err_cb ucp_ep status c) \<and> state ep = NIXL_UCX_EP_STATE_CONNECTED"
    using ep_step_failed by blast
  have b: "nixlUcxEp_ctor create_status new_eph = Some ep0 \<longrightarrow> state ep0 = NIXL_UCX_EP_STATE_CONNECTED"
    by (auto simp: nixlUcxEp_ctor_def setState_def split: if_splits)
  have c: "state ep = NIXL_UCX_EP_STATE_CONNECTED \<longrightarrow>
        state (fst (err_cb ep u s c)) = NIXL_UCX_EP_STATE_FAILED
        \<and> hd (snd (err_cb ep u s c)) = Ucp_ep_close_nb_FORCE u"
    by (simp add: err_cb_def setState_def)
  have d: "state ep = NIXL_UCX_EP_STATE_FAILED \<longrightarrow>
        closeImpl flags c ep = (NIXL_ERR_REMOTE_DISCONNECT, ep\<lparr>eph := None\<rparr>, [])
        \<and> disconnect_nb c ep = (NIXL_SUCCESS, ep\<lparr>eph := None\<rparr>, [])"
    by (simp add: closeImpl_def disconnect_nb_def)
  have e: "state ep \<noteq> NIXL_UCX_EP_STATE_CONNECTED \<longrightarrow> err_cb ep u s c = (ep, [])"
    by (cases "state ep") (simp_all add: err_cb_def)
  from a b c d e show ?thesis by blast
qed

theorem endpoint_failed_state_witness:
  "nixlUcxEp_ctor UCS_OK 1 = Some \<lparr>state = NIXL_UCX_EP_STATE_CONNECTED, eph = Some 1\<rparr>
   \<and> err_cb \<lparr>state = NIXL_UCX_EP_STATE_CONNECTED, eph = Some 1\<rparr> 1 UCS_ERR_CONNECTION_RESET UCS_PTR_NULL =
       (\<lparr>state = NIXL_UCX_EP_STATE_FAILED, eph = Some 1\<rparr>, [Ucp_ep_close_nb_FORCE 1])
   \<and> state (ep_step (Err_cb 1 UCS_ERR_CONNECTION_RESET UCS_PTR_NULL)
        \<lparr>state = NIXL_UCX_EP_STATE_CONNECTED, eph = Some 1\<rparr>) = NIXL_UCX_EP_STATE_FAILED
   \<and> closeImpl 0 UCS_PTR_NULL \<lparr>state = NIXL_UCX_EP_STATE_FAILED, eph = Some 1\<rparr> =
       (NIXL_ERR_REMOTE_DISCONNECT, \<lparr>state = NIXL_UCX_EP_STATE_FAILED, eph = None\<rparr>, [])
   \<and> disconnect_nb UCS_PTR_NULL \<lparr>state = NIXL_UCX_EP_STATE_FAILED, eph = Some 1\<rparr> =
       (NIXL_SUCCESS, \<lparr>state = NIXL_UCX_EP_STATE_FAILED, eph = None\<rparr>, [])
   \<and> err_cb \<lparr>state = NIXL_UCX_EP_STATE_FAILED, eph = Some 1\<rparr> 1 UCS_ERR_CONNECTION_RESET UCS_PTR_NULL =
       (\<lparr>state = NIXL_UCX_EP_STATE_FAILED, eph = Some 1\<rparr>, [])"
  using endpoint_failed_state [where op = "Err_cb 1 UCS_ERR_CONNECTION_RESET UCS_PTR_NULL"
      and ep = "\<lparr>state = NIXL_UCX_EP_STATE_CONNECTED, eph = Some 1\<rparr>"
      and create_status = UCS_OK and new_eph = 1
      and ?ep0.0 = "\<lparr>state = NIXL_UCX_EP_STATE_CONNECTED, eph = Some 1\<rparr>"
      and u = 1 and s = UCS_ERR_CONNECTION_RESET and c = UCS_PTR_NULL and flags = 0]
    endpoint_failed_state [where op = "CloseImpl 0 UCS_PTR_NULL"
      and ep = "\<lparr>state = NIXL_UCX_EP_STATE_FAILED, eph = Some 1\<rparr>"
      and create_status = UCS_OK and new_eph = 1
      and ?ep0.0 = "\<lparr>state = NIXL_UCX_EP_STATE_CONNECTED, eph = Some 1\<rparr>"
      and u = 1 and s = UCS_ERR_CONNECTION_RESET and c = UCS_PTR_NULL and flags = 0]
  by (simp add: nixlUcxEp_ctor_def ucx_status_to_nixl_def setState_def err_cb_def)

text \<open>The claim as it was stated fails for the disconnect attempt: \<^verbatim>\<open>disconnect_nb\<close> on a
  \<open>FAILED\<close> endpoint reports success, not a remote disconnect.\<close>

theorem endpoint_failed_state_counterexample:
  "fst (disconnect_nb UCS_PTR_NULL \<lparr>state = NIXL_UCX_EP_STATE_FAILED, eph = Some 1\<rparr>) = NIXL_SUCCESS
   \<and> snd (snd (disconnect_nb UCS_PTR_NULL \<lparr>state = NIXL_UCX_EP_STATE_FAILED, eph = Some 1\<rparr>)) = []"
  by (simp add: disconnect_nb_def closeImpl_def)

section \<open>The striping threshold parameter\<close>

lemma stoull_example: "stoull ''2097152'' = Some 2097152"
  by (simp add: stoull_def isspace_char_def isdigit_char_def digits_value_def Let_def)

lemma rail_manager_threshold_default:
  "nixlLibfabricEngine_ctor env p = Inr eng \<Longrightarrow>
     rm_striping_threshold (rail_manager eng) = NIXL_LIBFABRIC_DEFAULT_STRIPING_THRESHOLD"
  by (auto simp: nixlLibfabricEngine_ctor_def createAgentConnection_def
      nixlLibfabricRailManager_ctor_def Let_def split: if_splits prod.splits)

text \<open>
  Claim C3, at the failing input. Constructed with \<^verbatim>\<open>striping_threshold\<close> set to 2097152,
  the engine stores 2097152 in its own member, but its rail manager was built in the
  member initialiser list with the default and keeps 1048576: a transfer of 1572864
  bytes, below the configured threshold, is striped.
\<close>

theorem custom_striping_threshold_not_used:
  "(case nixlLibfabricEngine_ctor example_env example_init_params of
      Inl e \<Rightarrow> False
    | Inr eng \<Rightarrow>
        striping_threshold eng = 2097152
        \<and> rm_striping_threshold (rail_manager eng) = 1048576
        \<and> shouldUseStriping (rail_manager eng) 1572864)"
  by (simp add: nixlLibfabricEngine_ctor_def createAgentConnection_def
      nixlLibfabricRailManager_ctor_def example_env_def example_init_params_def
      parse_striping_threshold_def getInitParam_def stoull_example
      NIXL_LIBFABRIC_DEFAULT_STRIPING_THRESHOLD_def shouldUseStriping_def Let_def)

section \<open>Descriptor counts in prepXfer\<close>

lemma nixlUcxMoEngine_prepXfer_count_mismatch:
  "length local \<noteq> length remote \<Longrightarrow>
     nixlUcxMoEngine_prepXfer env eng operation local remote agent =
       Returns (NIXL_ERR_INVALID_PARAM, None, [])"
  by (simp add: nixlUcxMoEngine_prepXfer_def)

text \<open>
  Claim C4, at the failing input. With two local descriptors and one remote descriptor
  the multi-rail \<^verbatim>\<open>prepXfer\<close> returns success and a handle; \<^verbatim>\<open>postXfer\<close> with the same lists
  then reads the remote list past its end. (The engine of engines rejects every such
  pair: lemma \<open>nixlUcxMoEngine_prepXfer_count_mismatch\<close>.)
\<close>

theorem multirail_prepXfer_ignores_counts:
  "nixlLibfabricEngine_prepXfer example_engine NIXL_WRITE
      [example_local_desc, example_local_desc] [example_remote_desc] ''B'' =
     (NIXL_SUCCESS, Some new_nixlLibfabricBackendH)
   \<and> nixlLibfabricEngine_postXfer example_env example_postXfer_env example_engine NIXL_WRITE
      [example_local_desc, example_local_desc] [example_remote_desc] ''B''
      (Some new_nixlLibfabricBackendH) None = Undefined"
  by (simp add: nixlLibfabricEngine_prepXfer_def nixlLibfabricEngine_postXfer_def
      postXfer_body_def example_engine_def example_conn_def example_postXfer_env_def
      example_local_desc_def example_remote_desc_def Let_def)

section \<open>Releasing a request\<close>

lemma releaseReqH_loop_calls:
  "snd (releaseReqH_loop env ps mat out_ret calls) =
     calls @ map (\<lambda>(l, r). UcxReleaseReqH l (ucx_req (mat ! l ! r)))
               (filter (\<lambda>(l, r). in_use (mat ! l ! r)) ps)"
  by (induction env ps mat out_ret calls rule: releaseReqH_loop.induct) (simp_all add: Let_def)

lemma nixlUcxMoEngine_releaseReqH_calls:
  "nixlUcxMoEngine_releaseReqH env eng (Some req) = Returns (st, calls) \<Longrightarrow>
     calls = map (\<lambda>(l, r). UcxReleaseReqH l (ucx_req (dlMatrix req ! l ! r)))
               (filter (\<lambda>(l, r). in_use (dlMatrix req ! l ! r)) (positions (dlMatrix req)))"
  using releaseReqH_loop_calls [of env "positions (dlMatrix req)" "dlMatrix req" NIXL_SUCCESS "[]"]
  by (auto simp: nixlUcxMoEngine_releaseReqH_def)

text \<open>
  Claim C5, at the failing input. For a handle with one of four sub-requests completed,
  the multi-rail \<^verbatim>\<open>releaseReqH\<close> returns success and leaves the engine and the handle as
  they were: nothing is cancelled, and \<^verbatim>\<open>checkXfer\<close> still finds the transfer in progress.
  (The engine of engines hands \<^verbatim>\<open>releaseReqH\<close> to the inner engine of every element in
  use: lemma \<open>nixlUcxMoEngine_releaseReqH_calls\<close>.)
\<close>

theorem multirail_releaseReqH_cancels_nothing:
  "nixlLibfabricEngine_releaseReqH example_engine
      (Some \<lparr>completed_requests = 1, total_requests_used = 4\<rparr>) =
     (NIXL_SUCCESS, example_engine, Some \<lparr>completed_requests = 1, total_requests_used = 4\<rparr>)
   \<and> fst (nixlLibfabricEngine_checkXfer example_engine
        \<lparr>progress_status = NIXL_IN_PROG, handle_completions = 0, arrived_xfer_ids = []\<rparr>
        \<lparr>completed_requests = 1, total_requests_used = 4\<rparr>) = NIXL_IN_PROG"
  by (simp add: nixlLibfabricEngine_releaseReqH_def nixlLibfabricEngine_checkXfer_def
      example_engine_def run_completion_callbacks_def is_completed_def)

section \<open>Loading connection info twice\<close>

lemma nixlUcxMoEngine_loadRemoteConnInfo_loaded:
  "remoteConnMap eng agent = Some c \<Longrightarrow>
     nixlUcxMoEngine_loadRemoteConnInfo env importStr eng agent remote_conn_info =
       (NIXL_ERR_INVALID_PARAM, eng, [])"
  by (simp add: nixlUcxMoEngine_loadRemoteConnInfo_def)

text \<open>
  Claim C7, at the failing input. Agent B is loaded and its connection is established,
  with agent index 1. A second \<^verbatim>\<open>loadRemoteConnInfo\<close> for B on the multi-rail engine
  returns success, and the map now holds a new connection object for B, disconnected and
  with agent index 2; B is listed twice in the agent names. (The engine of engines
  rejects the second call and changes nothing: lemma
  \<open>nixlUcxMoEngine_loadRemoteConnInfo_loaded\<close>.)
\<close>

theorem multirail_loadRemoteConnInfo_overwrites:
  "connections example_engine ''B'' = Some (Some example_conn)
   \<and> overall_state example_conn = CONNECTED \<and> agent_index example_conn = 1
   \<and> (case nixlLibfabricEngine_loadRemoteConnInfo example_env example_engine ''B'' ''blob'' of
        (status, eng') \<Rightarrow>
          status = NIXL_SUCCESS
          \<and> connections eng' ''B'' =
              Some (Some \<lparr>remoteAgent = ''B'', rail_remote_addr_list = [7, 7],
                           control_rail_remote_addr_list = [7], src_ep_names = [''e0'', ''e1''],
                           control_ep_names = [''e2''], agent_index = 2,
                           overall_state = DISCONNECTED, object_id = 2\<rparr>)
          \<and> agent_names eng' = [''A'', ''B'', ''B''])"
  by (simp add: nixlLibfabricEngine_loadRemoteConnInfo_def createAgentConnection_def
      example_env_def example_engine_def example_conn_def example_rail_manager_def Let_def)

section \<open>Counters and status of postXfer\<close>














section \<open>Notifications of the engine of engines\<close>

lemma is_genNotif_simps:
  "is_genNotif (UcxGenNotif e a m)" "\<not> is_genNotif (UcxPostXfer l n h oa)"
  "\<not> is_genNotif (UcxCheckXfer l h)" "\<not> is_genNotif (UcxReleaseReqH l h)"
  "\<not> is_genNotif (UcxPrepXfer l n)" "\<not> is_genNotif (UcxGetNotifs l)"
  "\<not> is_genNotif (UcxLoadRemoteConnInfo l n c)"
  by (simp_all add: is_genNotif_def)

lemma set_elem_nth:
  "set_elem mat l r e ! l' ! r' =
     (if l' = l \<and> r' = r \<and> l < length mat \<and> r < length (mat ! l) then e else mat ! l' ! r')"
proof (cases "l < length mat")
  case False
  then show ?thesis by (simp add: set_elem_def list_update_beyond)
next
  case True
  show ?thesis
  proof (cases "r < length (mat ! l)")
    case False
    with True show ?thesis by (simp add: set_elem_def nth_list_update list_update_beyond)
  next
    case r: True
    with True show ?thesis by (simp add: set_elem_def nth_list_update)
  qed
qed

lemma set_elem_length: "length (set_elem mat l r e) = length mat"
  by (simp add: set_elem_def)

lemma set_elem_row_length: "length (set_elem mat l r e ! l') = length (mat ! l')"
  by (cases "l < length mat") (simp_all add: set_elem_def nth_list_update list_update_beyond)

lemma in_use_set_elem:
  "in_use (set_elem mat l r ((mat ! l ! r)\<lparr>in_progress := b\<rparr>) ! l' ! r') = in_use (mat ! l' ! r')"
  by (simp add: set_elem_nth)

lemma positions_iff: "(l, r) \<in> set (positions mat) \<longleftrightarrow> l < length mat \<and> r < length (mat ! l)"
  by (force simp: positions_def)

lemma postXfer_loop_skip:
  "\<not> in_use (mat ! l ! r) \<Longrightarrow>
     postXfer_loop env agent ((l, r) # ps) mat ip calls = postXfer_loop env agent ps mat ip calls"
  by simp

lemma postXfer_loop_success:
  "in_use (mat ! l ! r) \<Longrightarrow> ucx_postXfer env l r = NIXL_SUCCESS \<Longrightarrow>
     postXfer_loop env agent ((l, r) # ps) mat ip calls =
       postXfer_loop env agent ps mat ip
         (calls @ [UcxPostXfer l (getEngName agent r) (ucx_req (mat ! l ! r)) None])"
  by (simp add: Let_def)

lemma postXfer_loop_in_prog_step:
  "in_use (mat ! l ! r) \<Longrightarrow> ucx_postXfer env l r = NIXL_IN_PROG \<Longrightarrow>
     postXfer_loop env agent ((l, r) # ps) mat ip calls =
       postXfer_loop env agent ps (set_elem mat l r ((mat ! l ! r)\<lparr>in_progress := True\<rparr>)) True
         (calls @ [UcxPostXfer l (getEngName agent r) (ucx_req (mat ! l ! r)) None])"
  by (simp add: Let_def)

lemma postXfer_loop_fail:
  "in_use (mat ! l ! r) \<Longrightarrow> ucx_postXfer env l r \<noteq> NIXL_SUCCESS \<Longrightarrow>
   ucx_postXfer env l r \<noteq> NIXL_IN_PROG \<Longrightarrow>
     postXfer_loop env agent ((l, r) # ps) mat ip calls =
       (Some (ucx_postXfer env l r), mat, ip,
        calls @ [UcxPostXfer l (getEngName agent r) (ucx_req (mat ! l ! r)) None])"
  by (cases "ucx_postXfer env l r") (simp_all add: Let_def)

lemma postXfer_loop_genNotif:
  "filter is_genNotif (snd (snd (snd (postXfer_loop env agent ps mat ip calls)))) =
     filter is_genNotif calls"
proof (induction ps arbitrary: mat ip calls)
  case Nil
  then show ?case by simp
next
  case (Cons p ps)
  obtain l r where p: "p = (l, r)" by (cases p)
  consider (skip) "\<not> in_use (mat ! l ! r)"
    | (success) "in_use (mat ! l ! r)" "ucx_postXfer env l r = NIXL_SUCCESS"
    | (in_prog) "in_use (mat ! l ! r)" "ucx_postXfer env l r = NIXL_IN_PROG"
    | (fail) "in_use (mat ! l ! r)" "ucx_postXfer env l r \<noteq> NIXL_SUCCESS"
        "ucx_postXfer env l r \<noteq> NIXL_IN_PROG"
    by blast
  then show ?case
  proof cases
    case skip
    show ?thesis unfolding p postXfer_loop_skip [OF skip] by (rule Cons.IH)
  next
    case success
    show ?thesis unfolding p postXfer_loop_success [OF success]
      by (simp add: Cons.IH is_genNotif_simps)
  next
    case in_prog
    show ?thesis unfolding p postXfer_loop_in_prog_step [OF in_prog]
      by (simp add: Cons.IH is_genNotif_simps)
  next
    case fail
    show ?thesis unfolding p postXfer_loop_fail [OF fail] by (simp add: is_genNotif_simps)
  qed
qed

lemma postXfer_loop_None_iff:
  "fst (postXfer_loop env agent ps mat ip calls) = None \<longleftrightarrow>
     (\<forall>(l, r) \<in> set ps. in_use (mat ! l ! r) \<longrightarrow>
        ucx_postXfer env l r = NIXL_SUCCESS \<or> ucx_postXfer env l r = NIXL_IN_PROG)"
proof (induction ps arbitrary: mat ip calls)
  case Nil
  then show ?case by simp
next
  case (Cons p ps)
  obtain l r where p: "p = (l, r)" by (cases p)
  consider (skip) "\<not> in_use (mat ! l ! r)"
    | (success) "in_use (mat ! l ! r)" "ucx_postXfer env l r = NIXL_SUCCESS"
    | (in_prog) "in_use (mat ! l ! r)" "ucx_postXfer env l r = NIXL_IN_PROG"
    | (fail) "in_use (mat ! l ! r)" "ucx_postXfer env l r \<noteq> NIXL_SUCCESS"
        "ucx_postXfer env l r \<noteq> NIXL_IN_PROG"
    by blast
  then show ?case
  proof cases
    case skip
    show ?thesis unfolding p postXfer_loop_skip [OF skip] using skip by (simp add: Cons.IH)
  next
    case success
    show ?thesis unfolding p postXfer_loop_success [OF success] using success
      by (simp add: Cons.IH)
  next
    case in_prog
    show ?thesis unfolding p postXfer_loop_in_prog_step [OF in_prog] using in_prog
      by (simp add: Cons.IH in_use_set_elem)
  next
    case fail
    show ?thesis unfolding p postXfer_loop_fail [OF fail] using fail by simp
  qed
qed

lemma postXfer_loop_in_prog:
  "fst (postXfer_loop env agent ps mat ip calls) = None \<Longrightarrow>
     fst (snd (snd (postXfer_loop env agent ps mat ip calls))) =
       (ip \<or> (\<exists>(l, r) \<in> set ps. in_use (mat ! l ! r) \<and> ucx_postXfer env l r = NIXL_IN_PROG))"
proof (induction ps arbitrary: mat ip calls)
  case Nil
  then show ?case by simp
next
  case (Cons p ps)
  obtain l r where p: "p = (l, r)" by (cases p)
  consider (skip) "\<not> in_use (mat ! l ! r)"
    | (success) "in_use (mat ! l ! r)" "ucx_postXfer env l r = NIXL_SUCCESS"
    | (in_prog) "in_use (mat ! l ! r)" "ucx_postXfer env l r = NIXL_IN_PROG"
    | (fail) "in_use (mat ! l ! r)" "ucx_postXfer env l r \<noteq> NIXL_SUCCESS"
        "ucx_postXfer env l r \<noteq> NIXL_IN_PROG"
    by blast
  then show ?case
  proof cases
    case skip
    from Cons.prems have n: "fst (postXfer_loop env agent ps mat ip calls) = None"
      unfolding p postXfer_loop_skip [OF skip] .
    show ?thesis unfolding p postXfer_loop_skip [OF skip] using skip
      by (simp add: Cons.IH [OF n])
  next
    case success
    from Cons.prems have n: "fst (postXfer_loop env agent ps mat ip
        (calls @ [UcxPostXfer l (getEngName agent r) (ucx_req (mat ! l ! r)) None])) = None"
      unfolding p postXfer_loop_success [OF success] .
    show ?thesis unfolding p postXfer_loop_success [OF success] using success
      by (simp add: Cons.IH [OF n])
  next
    case in_prog
    from Cons.prems have n: "fst (postXfer_loop env agent ps
        (set_elem mat l r ((mat ! l ! r)\<lparr>in_progress := True\<rparr>)) True
        (calls @ [UcxPostXfer l (getEngName agent r) (ucx_req (mat ! l ! r)) None])) = None"
      unfolding p postXfer_loop_in_prog_step [OF in_prog] .
    show ?thesis unfolding p postXfer_loop_in_prog_step [OF in_prog] using in_prog
      by (simp add: Cons.IH [OF n])
  next
    case fail
    from Cons.prems show ?thesis unfolding p postXfer_loop_fail [OF fail] by simp
  qed
qed

lemma postXfer_loop_error:
  "fst (postXfer_loop env agent ps mat ip calls) = Some err \<Longrightarrow>
     err \<noteq> NIXL_SUCCESS \<and> err \<noteq> NIXL_IN_PROG"
proof (induction ps arbitrary: mat ip calls)
  case Nil
  then show ?case by simp
next
  case (Cons p ps)
  obtain l r where p: "p = (l, r)" by (cases p)
  consider (skip) "\<not> in_use (mat ! l ! r)"
    | (success) "in_use (mat ! l ! r)" "ucx_postXfer env l r = NIXL_SUCCESS"
    | (in_prog) "in_use (mat ! l ! r)" "ucx_postXfer env l r = NIXL_IN_PROG"
    | (fail) "in_use (mat ! l ! r)" "ucx_postXfer env l r \<noteq> NIXL_SUCCESS"
        "ucx_postXfer env l r \<noteq> NIXL_IN_PROG"
    by blast
  then show ?case
  proof cases
    case skip
    from Cons.prems show ?thesis unfolding p postXfer_loop_skip [OF skip] by (rule Cons.IH)
  next
    case success
    from Cons.prems show ?thesis unfolding p postXfer_loop_success [OF success]
      by (rule Cons.IH)
  next
    case in_prog
    from Cons.prems show ?thesis unfolding p postXfer_loop_in_prog_step [OF in_prog]
      by (rule Cons.IH)
  next
    case fail
    from Cons.prems fail show ?thesis unfolding p postXfer_loop_fail [OF fail] by auto
  qed
qed


lemma checkXfer_loop_skip:
  "\<not> in_progress (mat ! l ! r) \<Longrightarrow>
     checkXfer_loop env ((l, r) # ps) mat out_ret calls = checkXfer_loop env ps mat out_ret calls"
  by simp

lemma checkXfer_loop_success:
  "in_progress (mat ! l ! r) \<Longrightarrow> ucx_checkXfer env l r = NIXL_SUCCESS \<Longrightarrow>
     checkXfer_loop env ((l, r) # ps) mat out_ret calls =
       checkXfer_loop env ps (set_elem mat l r ((mat ! l ! r)\<lparr>in_progress := False\<rparr>)) out_ret
         (calls @ [UcxCheckXfer l (ucx_req (mat ! l ! r))])"
  by (simp add: Let_def)

lemma checkXfer_loop_in_prog_step:
  "in_progress (mat ! l ! r) \<Longrightarrow> ucx_checkXfer env l r = NIXL_IN_PROG \<Longrightarrow>
     checkXfer_loop env ((l, r) # ps) mat out_ret calls =
       checkXfer_loop env ps mat NIXL_IN_PROG (calls @ [UcxCheckXfer l (ucx_req (mat ! l ! r))])"
  by (simp add: Let_def)

lemma checkXfer_loop_fail:
  "in_progress (mat ! l ! r) \<Longrightarrow> ucx_checkXfer env l r \<noteq> NIXL_SUCCESS \<Longrightarrow>
   ucx_checkXfer env l r \<noteq> NIXL_IN_PROG \<Longrightarrow>
     checkXfer_loop env ((l, r) # ps) mat out_ret calls =
       (Some (ucx_checkXfer env l r), mat, out_ret,
        calls @ [UcxCheckXfer l (ucx_req (mat ! l ! r))])"
  by (cases "ucx_checkXfer env l r") (simp_all add: Let_def)

lemma checkXfer_loop_genNotif:
  "filter is_genNotif (snd (snd (snd (checkXfer_loop env ps mat out_ret calls)))) =
     filter is_genNotif calls"
proof (induction ps arbitrary: mat out_ret calls)
  case Nil
  then show ?case by simp
next
  case (Cons p ps)
  obtain l r where p: "p = (l, r)" by (cases p)
  consider (skip) "\<not> in_progress (mat ! l ! r)"
    | (success) "in_progress (mat ! l ! r)" "ucx_checkXfer env l r = NIXL_SUCCESS"
    | (in_prog) "in_progress (mat ! l ! r)" "ucx_checkXfer env l r = NIXL_IN_PROG"
    | (fail) "in_progress (mat ! l ! r)" "ucx_checkXfer env l r \<noteq> NIXL_SUCCESS"
        "ucx_checkXfer env l r \<noteq> NIXL_IN_PROG"
    by blast
  then show ?case
  proof cases
    case skip
    show ?thesis unfolding p checkXfer_loop_skip [OF skip] by (rule Cons.IH)
  next
    case success
    show ?thesis unfolding p checkXfer_loop_success [OF success]
      by (simp add: Cons.IH is_genNotif_simps)
  next
    case in_prog
    show ?thesis unfolding p checkXfer_loop_in_prog_step [OF in_prog]
      by (simp add: Cons.IH is_genNotif_simps)
  next
    case fail
    show ?thesis unfolding p checkXfer_loop_fail [OF fail] by (simp add: is_genNotif_simps)
  qed
qed

lemma checkXfer_loop_dims:
  "length (fst (snd (checkXfer_loop env ps mat out_ret calls))) = length mat
   \<and> length (fst (snd (checkXfer_loop env ps mat out_ret calls)) ! l') = length (mat ! l')"
proof (induction ps arbitrary: mat out_ret calls)
  case Nil
  then show ?case by simp
next
  case (Cons p ps)
  obtain l r where p: "p = (l, r)" by (cases p)
  consider (skip) "\<not> in_progress (mat ! l ! r)"
    | (success) "in_progress (mat ! l ! r)" "ucx_checkXfer env l r = NIXL_SUCCESS"
    | (in_prog) "in_progress (mat ! l ! r)" "ucx_checkXfer env l r = NIXL_IN_PROG"
    | (fail) "in_progress (mat ! l ! r)" "ucx_checkXfer env l r \<noteq> NIXL_SUCCESS"
        "ucx_checkXfer env l r \<noteq> NIXL_IN_PROG"
    by blast
  then show ?case
  proof cases
    case skip
    show ?thesis unfolding p checkXfer_loop_skip [OF skip] by (rule Cons.IH)
  next
    case success
    show ?thesis unfolding p checkXfer_loop_success [OF success]
      by (simp add: Cons.IH set_elem_length set_elem_row_length)
  next
    case in_prog
    show ?thesis unfolding p checkXfer_loop_in_prog_step [OF in_prog] by (rule Cons.IH)
  next
    case fail
    show ?thesis unfolding p checkXfer_loop_fail [OF fail] by simp
  qed
qed

lemma checkXfer_loop_mono:
  "in_progress (fst (snd (checkXfer_loop env ps mat out_ret calls)) ! l' ! r') \<Longrightarrow>
     in_progress (mat ! l' ! r')"
proof (induction ps arbitrary: mat out_ret calls)
  case Nil
  then show ?case by simp
next
  case (Cons p ps)
  obtain l r where p: "p = (l, r)" by (cases p)
  consider (skip) "\<not> in_progress (mat ! l ! r)"
    | (success) "in_progress (mat ! l ! r)" "ucx_checkXfer env l r = NIXL_SUCCESS"
    | (in_prog) "in_progress (mat ! l ! r)" "ucx_checkXfer env l r = NIXL_IN_PROG"
    | (fail) "in_progress (mat ! l ! r)" "ucx_checkXfer env l r \<noteq> NIXL_SUCCESS"
        "ucx_checkXfer env l r \<noteq> NIXL_IN_PROG"
    by blast
  then show ?case
  proof cases
    case skip
    from Cons.prems show ?thesis unfolding p checkXfer_loop_skip [OF skip] by (rule Cons.IH)
  next
    case success
    from Cons.prems
    have "in_progress (set_elem mat l r ((mat ! l ! r)\<lparr>in_progress := False\<rparr>) ! l' ! r')"
      unfolding p checkXfer_loop_success [OF success] by (rule Cons.IH)
    then show ?thesis by (simp add: set_elem_nth split: if_splits)
  next
    case in_prog
    from Cons.prems show ?thesis unfolding p checkXfer_loop_in_prog_step [OF in_prog]
      by (rule Cons.IH)
  next
    case fail
    from Cons.prems show ?thesis unfolding p checkXfer_loop_fail [OF fail] by simp
  qed
qed

lemma checkXfer_loop_out:
  "fst (snd (snd (checkXfer_loop env ps mat out_ret calls))) = NIXL_SUCCESS \<Longrightarrow>
     out_ret = NIXL_SUCCESS"
proof (induction ps arbitrary: mat out_ret calls)
  case Nil
  then show ?case by simp
next
  case (Cons p ps)
  obtain l r where p: "p = (l, r)" by (cases p)
  consider (skip) "\<not> in_progress (mat ! l ! r)"
    | (success) "in_progress (mat ! l ! r)" "ucx_checkXfer env l r = NIXL_SUCCESS"
    | (in_prog) "in_progress (mat ! l ! r)" "ucx_checkXfer env l r = NIXL_IN_PROG"
    | (fail) "in_progress (mat ! l ! r)" "ucx_checkXfer env l r \<noteq> NIXL_SUCCESS"
        "ucx_checkXfer env l r \<noteq> NIXL_IN_PROG"
    by blast
  then show ?case
  proof cases
    case skip
    from Cons.prems show ?thesis unfolding p checkXfer_loop_skip [OF skip] by (rule Cons.IH)
  next
    case success
    from Cons.prems show ?thesis unfolding p checkXfer_loop_success [OF success]
      by (rule Cons.IH)
  next
    case in_prog
    from Cons.prems have "NIXL_IN_PROG = NIXL_SUCCESS"
      unfolding p checkXfer_loop_in_prog_step [OF in_prog] by (rule Cons.IH)
    then show ?thesis by simp
  next
    case fail
    from Cons.prems show ?thesis unfolding p checkXfer_loop_fail [OF fail] by simp
  qed
qed

lemma checkXfer_loop_done:
  "fst (checkXfer_loop env ps mat out_ret calls) = None \<Longrightarrow>
   fst (snd (snd (checkXfer_loop env ps mat out_ret calls))) = NIXL_SUCCESS \<Longrightarrow>
   (l', r') \<in> set ps \<Longrightarrow> l' < length mat \<Longrightarrow> r' < length (mat ! l') \<Longrightarrow>
     \<not> in_progress (fst (snd (checkXfer_loop env ps mat out_ret calls)) ! l' ! r')"
proof (induction ps arbitrary: mat out_ret calls)
  case Nil
  then show ?case by simp
next
  case (Cons p ps)
  obtain l r where p: "p = (l, r)" by (cases p)
  consider (skip) "\<not> in_progress (mat ! l ! r)"
    | (success) "in_progress (mat ! l ! r)" "ucx_checkXfer env l r = NIXL_SUCCESS"
    | (in_prog) "in_progress (mat ! l ! r)" "ucx_checkXfer env l r = NIXL_IN_PROG"
    | (fail) "in_progress (mat ! l ! r)" "ucx_checkXfer env l r \<noteq> NIXL_SUCCESS"
        "ucx_checkXfer env l r \<noteq> NIXL_IN_PROG"
    by blast
  then show ?case
  proof cases
    case skip
    note eq = checkXfer_loop_skip [OF skip, of env ps out_ret calls]
    show ?thesis
    proof (cases "(l', r') = (l, r)")
      case True
      with skip checkXfer_loop_mono [of env ps mat out_ret calls l' r'] show ?thesis
        unfolding p eq by auto
    next
      case False
      with Cons.prems(3) p have m: "(l', r') \<in> set ps" by auto
      from Cons.prems(1,2) show ?thesis unfolding p eq
        using Cons.IH [OF _ _ m Cons.prems(4,5)] by blast
    qed
  next
    case success
    let ?mat1 = "set_elem mat l r ((mat ! l ! r)\<lparr>in_progress := False\<rparr>)"
    let ?calls1 = "calls @ [UcxCheckXfer l (ucx_req (mat ! l ! r))]"
    note eq = checkXfer_loop_success [OF success, of ps out_ret calls]
    show ?thesis
    proof (cases "(l', r') = (l, r)")
      case True
      have "\<not> in_progress (?mat1 ! l' ! r')"
        using True Cons.prems(4,5) by (simp add: set_elem_nth)
      with checkXfer_loop_mono [of env ps ?mat1 out_ret ?calls1 l' r'] show ?thesis
        unfolding p eq by auto
    next
      case False
      with Cons.prems(3) p have m: "(l', r') \<in> set ps" by auto
      have d: "l' < length ?mat1" "r' < length (?mat1 ! l')"
        using Cons.prems(4,5) by (simp_all add: set_elem_length set_elem_row_length)
      from Cons.prems(1,2) show ?thesis unfolding p eq
        using Cons.IH [OF _ _ m d] by blast
    qed
  next
    case in_prog
    from Cons.prems(2) have "NIXL_IN_PROG = NIXL_SUCCESS"
      unfolding p checkXfer_loop_in_prog_step [OF in_prog] by (rule checkXfer_loop_out)
    then show ?thesis by simp
  next
    case fail
    from Cons.prems(1) show ?thesis unfolding p checkXfer_loop_fail [OF fail] by simp
  qed
qed

lemma checkXfer_loop_all_success:
  "(\<forall>(l, r) \<in> set ps. in_progress (mat ! l ! r) \<longrightarrow> ucx_checkXfer env l r = NIXL_SUCCESS) \<Longrightarrow>
     fst (checkXfer_loop env ps mat out_ret calls) = None
     \<and> fst (snd (snd (checkXfer_loop env ps mat out_ret calls))) = out_ret"
proof (induction ps arbitrary: mat out_ret calls)
  case Nil
  then show ?case by simp
next
  case (Cons p ps)
  obtain l r where p: "p = (l, r)" by (cases p)
  show ?case
  proof (cases "in_progress (mat ! l ! r)")
    case False
    from Cons.prems have "\<forall>(l, r) \<in> set ps. in_progress (mat ! l ! r) \<longrightarrow>
        ucx_checkXfer env l r = NIXL_SUCCESS" by simp
    from Cons.IH [OF this] show ?thesis unfolding p checkXfer_loop_skip [OF False] .
  next
    case True
    with Cons.prems p have s: "ucx_checkXfer env l r = NIXL_SUCCESS" by simp
    let ?mat1 = "set_elem mat l r ((mat ! l ! r)\<lparr>in_progress := False\<rparr>)"
    have "\<forall>(l, r) \<in> set ps. in_progress (?mat1 ! l ! r) \<longrightarrow> ucx_checkXfer env l r = NIXL_SUCCESS"
      using Cons.prems by (auto simp: set_elem_nth split: if_splits)
    from Cons.IH [OF this] show ?thesis unfolding p checkXfer_loop_success [OF True s] .
  qed
qed


lemma postXfer_loop_no_opt_args:
  "UcxPostXfer l' n h (Some a) \<notin> set calls \<Longrightarrow>
     UcxPostXfer l' n h (Some a) \<notin>
       set (snd (snd (snd (postXfer_loop env agent ps mat ip calls))))"
proof (induction ps arbitrary: mat ip calls)
  case Nil
  then show ?case by simp
next
  case (Cons p ps)
  obtain l r where p: "p = (l, r)" by (cases p)
  consider (skip) "\<not> in_use (mat ! l ! r)"
    | (success) "in_use (mat ! l ! r)" "ucx_postXfer env l r = NIXL_SUCCESS"
    | (in_prog) "in_use (mat ! l ! r)" "ucx_postXfer env l r = NIXL_IN_PROG"
    | (fail) "in_use (mat ! l ! r)" "ucx_postXfer env l r \<noteq> NIXL_SUCCESS"
        "ucx_postXfer env l r \<noteq> NIXL_IN_PROG"
    by blast
  then show ?case
  proof cases
    case skip
    show ?thesis unfolding p postXfer_loop_skip [OF skip] by (rule Cons.IH [OF Cons.prems])
  next
    case success
    show ?thesis unfolding p postXfer_loop_success [OF success]
      by (rule Cons.IH) (simp add: Cons.prems)
  next
    case in_prog
    show ?thesis unfolding p postXfer_loop_in_prog_step [OF in_prog]
      by (rule Cons.IH) (simp add: Cons.prems)
  next
    case fail
    show ?thesis unfolding p postXfer_loop_fail [OF fail] by (simp add: Cons.prems)
  qed
qed

lemma postXfer_loop_dims:
  "length (fst (snd (postXfer_loop env agent ps mat ip calls))) = length mat
   \<and> length (fst (snd (postXfer_loop env agent ps mat ip calls)) ! l') = length (mat ! l')"
proof (induction ps arbitrary: mat ip calls)
  case Nil
  then show ?case by simp
next
  case (Cons p ps)
  obtain l r where p: "p = (l, r)" by (cases p)
  consider (skip) "\<not> in_use (mat ! l ! r)"
    | (success) "in_use (mat ! l ! r)" "ucx_postXfer env l r = NIXL_SUCCESS"
    | (in_prog) "in_use (mat ! l ! r)" "ucx_postXfer env l r = NIXL_IN_PROG"
    | (fail) "in_use (mat ! l ! r)" "ucx_postXfer env l r \<noteq> NIXL_SUCCESS"
        "ucx_postXfer env l r \<noteq> NIXL_IN_PROG"
    by blast
  then show ?case
  proof cases
    case skip
    show ?thesis unfolding p postXfer_loop_skip [OF skip] by (rule Cons.IH)
  next
    case success
    show ?thesis unfolding p postXfer_loop_success [OF success] by (rule Cons.IH)
  next
    case in_prog
    show ?thesis unfolding p postXfer_loop_in_prog_step [OF in_prog]
      by (simp add: Cons.IH set_elem_length set_elem_row_length)
  next
    case fail
    show ?thesis unfolding p postXfer_loop_fail [OF fail] by simp
  qed
qed

lemma postXfer_loop_flags:
  "fst (postXfer_loop env agent ps mat ip calls) = None \<Longrightarrow>
   l' < length mat \<Longrightarrow> r' < length (mat ! l') \<Longrightarrow>
     in_progress (fst (snd (postXfer_loop env agent ps mat ip calls)) ! l' ! r') \<longleftrightarrow>
       in_progress (mat ! l' ! r') \<or>
       ((l', r') \<in> set ps \<and> in_use (mat ! l' ! r') \<and> ucx_postXfer env l' r' = NIXL_IN_PROG)"
proof (induction ps arbitrary: mat ip calls)
  case Nil
  then show ?case by simp
next
  case (Cons p ps)
  obtain l r where p: "p = (l, r)" by (cases p)
  consider (skip) "\<not> in_use (mat ! l ! r)"
    | (success) "in_use (mat ! l ! r)" "ucx_postXfer env l r = NIXL_SUCCESS"
    | (in_prog) "in_use (mat ! l ! r)" "ucx_postXfer env l r = NIXL_IN_PROG"
    | (fail) "in_use (mat ! l ! r)" "ucx_postXfer env l r \<noteq> NIXL_SUCCESS"
        "ucx_postXfer env l r \<noteq> NIXL_IN_PROG"
    by blast
  then show ?case
  proof cases
    case skip
    note eq = postXfer_loop_skip [OF skip, of env agent ps ip calls]
    from Cons.prems(1) have n: "fst (postXfer_loop env agent ps mat ip calls) = None"
      unfolding p eq .
    from Cons.IH [OF n Cons.prems(2,3)] skip show ?thesis unfolding p eq by auto
  next
    case success
    note eq = postXfer_loop_success [OF success, of agent ps ip calls]
    let ?calls1 = "calls @ [UcxPostXfer l (getEngName agent r) (ucx_req (mat ! l ! r)) None]"
    from Cons.prems(1) have n: "fst (postXfer_loop env agent ps mat ip ?calls1) = None"
      unfolding p eq .
    from Cons.IH [OF n Cons.prems(2,3)] success show ?thesis unfolding p eq by auto
  next
    case in_prog
    note eq = postXfer_loop_in_prog_step [OF in_prog, of agent ps ip calls]
    let ?mat1 = "set_elem mat l r ((mat ! l ! r)\<lparr>in_progress := True\<rparr>)"
    let ?calls1 = "calls @ [UcxPostXfer l (getEngName agent r) (ucx_req (mat ! l ! r)) None]"
    from Cons.prems(1) have n: "fst (postXfer_loop env agent ps ?mat1 True ?calls1) = None"
      unfolding p eq .
    have d: "l' < length ?mat1" "r' < length (?mat1 ! l')"
      using Cons.prems(2,3) by (simp_all add: set_elem_length set_elem_row_length)
    have u: "in_use (?mat1 ! l' ! r') = in_use (mat ! l' ! r')"
      by (rule in_use_set_elem)
    have f: "in_progress (?mat1 ! l' ! r') \<longleftrightarrow> (l', r') = (l, r) \<or> in_progress (mat ! l' ! r')"
      using Cons.prems(2,3) by (auto simp: set_elem_nth)
    from Cons.IH [OF n d] in_prog show ?thesis unfolding p eq u f by auto
  next
    case fail
    from Cons.prems(1) show ?thesis unfolding p postXfer_loop_fail [OF fail] by simp
  qed
qed

lemma checkXfer_loop_flags:
  "fst (checkXfer_loop env ps mat out_ret calls) = None \<Longrightarrow>
   l' < length mat \<Longrightarrow> r' < length (mat ! l') \<Longrightarrow>
     in_progress (fst (snd (checkXfer_loop env ps mat out_ret calls)) ! l' ! r') \<longleftrightarrow>
       in_progress (mat ! l' ! r') \<and>
       \<not> ((l', r') \<in> set ps \<and> ucx_checkXfer env l' r' = NIXL_SUCCESS)"
proof (induction ps arbitrary: mat out_ret calls)
  case Nil
  then show ?case by simp
next
  case (Cons p ps)
  obtain l r where p: "p = (l, r)" by (cases p)
  consider (skip) "\<not> in_progress (mat ! l ! r)"
    | (success) "in_progress (mat ! l ! r)" "ucx_checkXfer env l r = NIXL_SUCCESS"
    | (in_prog) "in_progress (mat ! l ! r)" "ucx_checkXfer env l r = NIXL_IN_PROG"
    | (fail) "in_progress (mat ! l ! r)" "ucx_checkXfer env l r \<noteq> NIXL_SUCCESS"
        "ucx_checkXfer env l r \<noteq> NIXL_IN_PROG"
    by blast
  then show ?case
  proof cases
    case skip
    note eq = checkXfer_loop_skip [OF skip, of env ps out_ret calls]
    from Cons.prems(1) have n: "fst (checkXfer_loop env ps mat out_ret calls) = None"
      unfolding p eq .
    from Cons.IH [OF n Cons.prems(2,3)] skip show ?thesis unfolding p eq by auto
  next
    case success
    note eq = checkXfer_loop_success [OF success, of ps out_ret calls]
    let ?mat1 = "set_elem mat l r ((mat ! l ! r)\<lparr>in_progress := False\<rparr>)"
    let ?calls1 = "calls @ [UcxCheckXfer l (ucx_req (mat ! l ! r))]"
    from Cons.prems(1) have n: "fst (checkXfer_loop env ps ?mat1 out_ret ?calls1) = None"
      unfolding p eq .
    have d: "l' < length ?mat1" "r' < length (?mat1 ! l')"
      using Cons.prems(2,3) by (simp_all add: set_elem_length set_elem_row_length)
    have f: "in_progress (?mat1 ! l' ! r') \<longleftrightarrow> (l', r') \<noteq> (l, r) \<and> in_progress (mat ! l' ! r')"
      using Cons.prems(2,3) by (auto simp: set_elem_nth)
    from Cons.IH [OF n d] success show ?thesis unfolding p eq f by auto
  next
    case in_prog
    note eq = checkXfer_loop_in_prog_step [OF in_prog, of ps out_ret calls]
    let ?calls1 = "calls @ [UcxCheckXfer l (ucx_req (mat ! l ! r))]"
    from Cons.prems(1) have n: "fst (checkXfer_loop env ps mat NIXL_IN_PROG ?calls1) = None"
      unfolding p eq .
    from Cons.IH [OF n Cons.prems(2,3)] in_prog show ?thesis unfolding p eq by auto
  next
    case fail
    from Cons.prems(1) show ?thesis unfolding p checkXfer_loop_fail [OF fail] by simp
  qed
qed

lemma checkXfer_loop_checked:
  "fst (checkXfer_loop env ps mat out_ret calls) = None \<Longrightarrow>
   fst (snd (snd (checkXfer_loop env ps mat out_ret calls))) = NIXL_SUCCESS \<Longrightarrow>
   (l', r') \<in> set ps \<Longrightarrow> in_progress (mat ! l' ! r') \<Longrightarrow>
     ucx_checkXfer env l' r' = NIXL_SUCCESS"
proof (induction ps arbitrary: mat out_ret calls)
  case Nil
  then show ?case by simp
next
  case (Cons p ps)
  obtain l r where p: "p = (l, r)" by (cases p)
  consider (skip) "\<not> in_progress (mat ! l ! r)"
    | (success) "in_progress (mat ! l ! r)" "ucx_checkXfer env l r = NIXL_SUCCESS"
    | (in_prog) "in_progress (mat ! l ! r)" "ucx_checkXfer env l r = NIXL_IN_PROG"
    | (fail) "in_progress (mat ! l ! r)" "ucx_checkXfer env l r \<noteq> NIXL_SUCCESS"
        "ucx_checkXfer env l r \<noteq> NIXL_IN_PROG"
    by blast
  then show ?case
  proof cases
    case skip
    note eq = checkXfer_loop_skip [OF skip, of env ps out_ret calls]
    from skip Cons.prems(3,4) p have m: "(l', r') \<in> set ps" by auto
    from Cons.prems(1,2) show ?thesis unfolding p eq
      using Cons.IH [OF _ _ m Cons.prems(4)] by blast
  next
    case success
    note eq = checkXfer_loop_success [OF success, of ps out_ret calls]
    let ?mat1 = "set_elem mat l r ((mat ! l ! r)\<lparr>in_progress := False\<rparr>)"
    show ?thesis
    proof (cases "(l', r') = (l, r)")
      case True
      with success show ?thesis by simp
    next
      case False
      with Cons.prems(3) p have m: "(l', r') \<in> set ps" by auto
      from False Cons.prems(4) have f: "in_progress (?mat1 ! l' ! r')"
        by (auto simp: set_elem_nth)
      from Cons.prems(1,2) show ?thesis unfolding p eq
        using Cons.IH [OF _ _ m f] by blast
    qed
  next
    case in_prog
    from Cons.prems(2) have "NIXL_IN_PROG = NIXL_SUCCESS"
      unfolding p checkXfer_loop_in_prog_step [OF in_prog] by (rule checkXfer_loop_out)
    then show ?thesis by simp
  next
    case fail
    from Cons.prems(1) show ?thesis unfolding p checkXfer_loop_fail [OF fail] by simp
  qed
qed

lemma checkXfer_loop_None:
  "(\<forall>(l, r) \<in> set ps. in_progress (mat ! l ! r) \<longrightarrow>
      ucx_checkXfer env l r = NIXL_SUCCESS \<or> ucx_checkXfer env l r = NIXL_IN_PROG) \<Longrightarrow>
     fst (checkXfer_loop env ps mat out_ret calls) = None"
proof (induction ps arbitrary: mat out_ret calls)
  case Nil
  then show ?case by simp
next
  case (Cons p ps)
  obtain l r where p: "p = (l, r)" by (cases p)
  from Cons.prems have rest: "\<forall>(l, r) \<in> set ps. in_progress (mat ! l ! r) \<longrightarrow>
      ucx_checkXfer env l r = NIXL_SUCCESS \<or> ucx_checkXfer env l r = NIXL_IN_PROG"
    by simp
  show ?case
  proof (cases "in_progress (mat ! l ! r)")
    case False
    show ?thesis unfolding p checkXfer_loop_skip [OF False] by (rule Cons.IH [OF rest])
  next
    case flagged: True
    with Cons.prems p consider
        (success) "in_progress (mat ! l ! r)" "ucx_checkXfer env l r = NIXL_SUCCESS"
      | (in_prog) "in_progress (mat ! l ! r)" "ucx_checkXfer env l r = NIXL_IN_PROG"
      by auto
    then show ?thesis
    proof cases
      case success
      let ?mat1 = "set_elem mat l r ((mat ! l ! r)\<lparr>in_progress := False\<rparr>)"
      have "\<forall>(l', r') \<in> set ps. in_progress (?mat1 ! l' ! r') \<longrightarrow>
          ucx_checkXfer env l' r' = NIXL_SUCCESS \<or> ucx_checkXfer env l' r' = NIXL_IN_PROG"
        using rest by (auto simp: set_elem_nth split: if_splits)
      then show ?thesis unfolding p checkXfer_loop_success [OF success] by (rule Cons.IH)
    next
      case in_prog
      show ?thesis unfolding p checkXfer_loop_in_prog_step [OF in_prog]
        by (rule Cons.IH [OF rest])
    qed
  qed
qed

lemma postXfer_in_progress_stores:
  assumes a: "\<forall>(l, r) \<in> set (positions (dlMatrix req)). in_use (dlMatrix req ! l ! r) \<longrightarrow>
        ucx_postXfer env l r = NIXL_SUCCESS \<or> ucx_postXfer env l r = NIXL_IN_PROG"
    and b: "\<exists>(l, r) \<in> set (positions (dlMatrix req)). in_use (dlMatrix req ! l ! r) \<and>
        ucx_postXfer env l r = NIXL_IN_PROG"
  shows "\<exists>req' calls.
      nixlUcxMoEngine_postXfer env eng operation agent (Some req) (Some args) =
        Returns (NIXL_IN_PROG, req', calls)
      \<and> filter is_genNotif calls = []
      \<and> (hasNotif args \<longrightarrow>
           notifNeed req' \<and> req_notifMsg req' = notifMsg args \<and> req_remoteAgent req' = agent)"
proof -
  obtain err m ip cs where
    L: "postXfer_loop env agent (positions (dlMatrix req)) (dlMatrix req) False [] = (err, m, ip, cs)"
    by (metis prod_cases4)
  from a postXfer_loop_None_iff [of env agent "positions (dlMatrix req)" "dlMatrix req" False "[]"] L
  have e: "err = None" by simp
  from postXfer_loop_in_prog [of env agent "positions (dlMatrix req)" "dlMatrix req" False "[]"] L e b
  have i: "ip" by simp
  from postXfer_loop_genNotif [of env agent "positions (dlMatrix req)" "dlMatrix req" False "[]"] L
  have g: "filter is_genNotif cs = []" by simp
  show ?thesis
    by (simp add: nixlUcxMoEngine_postXfer_def L e i g)
qed

lemma postXfer_inline_sends:
  assumes a: "\<forall>(l, r) \<in> set (positions (dlMatrix req)). in_use (dlMatrix req ! l ! r) \<longrightarrow>
        ucx_postXfer env l r = NIXL_SUCCESS"
    and h: "hasNotif args" and n: "0 < engines_size eng"
  shows "\<exists>st req' calls.
      nixlUcxMoEngine_postXfer env eng operation agent (Some req) (Some args) =
        Returns (st, req', calls)
      \<and> filter is_genNotif calls = [UcxGenNotif 0 (getEngName agent 0) (notifMsg args)]"
proof -
  obtain err m ip cs where
    L: "postXfer_loop env agent (positions (dlMatrix req)) (dlMatrix req) False [] = (err, m, ip, cs)"
    by (metis prod_cases4)
  from a postXfer_loop_None_iff [of env agent "positions (dlMatrix req)" "dlMatrix req" False "[]"] L
  have e: "err = None" by auto
  from postXfer_loop_in_prog [of env agent "positions (dlMatrix req)" "dlMatrix req" False "[]"] L e a
  have i: "\<not> ip" by auto
  from postXfer_loop_genNotif [of env agent "positions (dlMatrix req)" "dlMatrix req" False "[]"] L
  have g: "filter is_genNotif cs = []" by simp
  show ?thesis
    using n by (simp add: nixlUcxMoEngine_postXfer_def L e i g h Let_def is_genNotif_simps)
qed

lemma postXfer_sends_only_inline:
  assumes r: "nixlUcxMoEngine_postXfer env eng operation agent (Some req) opt_args =
        Returns (st, req', calls)"
    and g: "filter is_genNotif calls \<noteq> []"
  shows "\<forall>(l, r) \<in> set (positions (dlMatrix req)). in_use (dlMatrix req ! l ! r) \<longrightarrow>
        ucx_postXfer env l r = NIXL_SUCCESS"
proof -
  obtain err m ip cs where
    L: "postXfer_loop env agent (positions (dlMatrix req)) (dlMatrix req) False [] = (err, m, ip, cs)"
    by (metis prod_cases4)
  from postXfer_loop_genNotif [of env agent "positions (dlMatrix req)" "dlMatrix req" False "[]"] L
  have c: "filter is_genNotif cs = []" by simp
  from r g c have e: "err = None" and i: "\<not> ip"
    by (auto simp: nixlUcxMoEngine_postXfer_def L Let_def split: option.splits if_splits)
  from e postXfer_loop_None_iff [of env agent "positions (dlMatrix req)" "dlMatrix req" False "[]"] L
  have a: "\<forall>(l, r) \<in> set (positions (dlMatrix req)). in_use (dlMatrix req ! l ! r) \<longrightarrow>
        ucx_postXfer env l r = NIXL_SUCCESS \<or> ucx_postXfer env l r = NIXL_IN_PROG"
    by simp
  from postXfer_loop_in_prog [of env agent "positions (dlMatrix req)" "dlMatrix req" False "[]"] L e i
  have "\<not> (\<exists>(l, r) \<in> set (positions (dlMatrix req)). in_use (dlMatrix req ! l ! r) \<and>
        ucx_postXfer env l r = NIXL_IN_PROG)" by simp
  with a show ?thesis by fastforce
qed

lemma checkXfer_sends_when_done:
  assumes r: "nixlUcxMoEngine_checkXfer env eng (Some req) = Returns (st, req', calls)"
    and g: "filter is_genNotif calls \<noteq> []"
  shows "notifNeed req
     \<and> filter is_genNotif calls =
         [UcxGenNotif 0 (getEngName (req_remoteAgent req) 0) (req_notifMsg req)]
     \<and> (\<forall>l < length (dlMatrix req'). \<forall>r < length (dlMatrix req' ! l).
          \<not> in_progress (dlMatrix req' ! l ! r))"
proof -
  let ?P = "positions (dlMatrix req)"
  obtain err m out cs where
    L: "checkXfer_loop env ?P (dlMatrix req) NIXL_SUCCESS [] = (err, m, out, cs)"
    by (metis prod_cases4)
  from checkXfer_loop_genNotif [of env ?P "dlMatrix req" NIXL_SUCCESS "[]"] L
  have c: "filter is_genNotif cs = []" by simp
  from r g c have e: "err = None" and o: "out = NIXL_SUCCESS" and nn: "notifNeed req"
    and m: "dlMatrix req' = m"
    and f: "filter is_genNotif calls =
         [UcxGenNotif 0 (getEngName (req_remoteAgent req) 0) (req_notifMsg req)]"
    by (auto simp: nixlUcxMoEngine_checkXfer_def L Let_def is_genNotif_simps
        split: option.splits if_splits)
  have d: "\<not> in_progress (m ! l ! r')" if "l < length m" "r' < length (m ! l)" for l r'
  proof -
    from checkXfer_loop_dims [of env ?P "dlMatrix req" NIXL_SUCCESS "[]" l] L that
    have inr: "l < length (dlMatrix req)" "r' < length (dlMatrix req ! l)" by simp_all
    then have "(l, r') \<in> set ?P" by (simp add: positions_iff)
    from checkXfer_loop_done [of env ?P "dlMatrix req" NIXL_SUCCESS "[]" l r'] L e o this inr
    show ?thesis by simp
  qed
  from nn f d m show ?thesis by simp
qed

lemma checkXfer_sends_stored:
  assumes nn: "notifNeed req" and n: "0 < engines_size eng"
    and a: "\<forall>(l, r) \<in> set (positions (dlMatrix req)). in_progress (dlMatrix req ! l ! r) \<longrightarrow>
        ucx_checkXfer env l r = NIXL_SUCCESS"
  shows "\<exists>st req' calls.
      nixlUcxMoEngine_checkXfer env eng (Some req) = Returns (st, req', calls)
      \<and> filter is_genNotif calls =
          [UcxGenNotif 0 (getEngName (req_remoteAgent req) 0) (req_notifMsg req)]"
proof -
  let ?P = "positions (dlMatrix req)"
  obtain err m out cs where
    L: "checkXfer_loop env ?P (dlMatrix req) NIXL_SUCCESS [] = (err, m, out, cs)"
    by (metis prod_cases4)
  from checkXfer_loop_genNotif [of env ?P "dlMatrix req" NIXL_SUCCESS "[]"] L
  have c: "filter is_genNotif cs = []" by simp
  from checkXfer_loop_all_success [OF a, of NIXL_SUCCESS "[]"] L
  have e: "err = None" and o: "out = NIXL_SUCCESS" by simp_all
  show ?thesis
    using n by (simp add: nixlUcxMoEngine_checkXfer_def L e o nn c Let_def is_genNotif_simps)
qed

lemma postXfer_in_progress_flags:
  assumes r: "nixlUcxMoEngine_postXfer env eng operation agent (Some req) opt_args =
        Returns (NIXL_IN_PROG, req', calls)"
  shows "(\<forall>(l, r) \<in> set (positions (dlMatrix req)). in_use (dlMatrix req ! l ! r) \<longrightarrow>
        ucx_postXfer env l r = NIXL_SUCCESS \<or> ucx_postXfer env l r = NIXL_IN_PROG)
     \<and> length (dlMatrix req') = length (dlMatrix req)
     \<and> (\<forall>l. length (dlMatrix req' ! l) = length (dlMatrix req ! l))
     \<and> (\<forall>(l, r) \<in> set (positions (dlMatrix req)).
          in_progress (dlMatrix req' ! l ! r) \<longleftrightarrow>
            in_progress (dlMatrix req ! l ! r) \<or>
            (in_use (dlMatrix req ! l ! r) \<and> ucx_postXfer env l r = NIXL_IN_PROG))"
proof -
  let ?P = "positions (dlMatrix req)"
  obtain err m ip cs where
    L: "postXfer_loop env agent ?P (dlMatrix req) False [] = (err, m, ip, cs)"
    by (metis prod_cases4)
  have e: "err = None"
  proof (cases err)
    case None
    then show ?thesis .
  next
    case (Some ret)
    with r L have "ret = NIXL_IN_PROG" by (simp add: nixlUcxMoEngine_postXfer_def)
    with postXfer_loop_error [of env agent ?P "dlMatrix req" False "[]" ret] L Some
    show ?thesis by simp
  qed
  from r have m: "dlMatrix req' = m"
    by (auto simp: nixlUcxMoEngine_postXfer_def L e Let_def split: option.splits if_splits)
  from e postXfer_loop_None_iff [of env agent ?P "dlMatrix req" False "[]"] L
  have a: "\<forall>(l, r) \<in> set ?P. in_use (dlMatrix req ! l ! r) \<longrightarrow>
        ucx_postXfer env l r = NIXL_SUCCESS \<or> ucx_postXfer env l r = NIXL_IN_PROG"
    by simp
  have d1: "length (dlMatrix req') = length (dlMatrix req)"
    and d2: "length (dlMatrix req' ! l) = length (dlMatrix req ! l)" for l
    using postXfer_loop_dims [of env agent ?P "dlMatrix req" False "[]" l] L m by simp_all
  have f: "in_progress (dlMatrix req' ! l ! r') \<longleftrightarrow>
        in_progress (dlMatrix req ! l ! r') \<or>
        (in_use (dlMatrix req ! l ! r') \<and> ucx_postXfer env l r' = NIXL_IN_PROG)"
    if "(l, r') \<in> set ?P" for l r'
  proof -
    from that have b: "l < length (dlMatrix req)" "r' < length (dlMatrix req ! l)"
      by (simp_all add: positions_iff)
    from postXfer_loop_flags [of env agent ?P "dlMatrix req" False "[]" l r'] L e b that m
    show ?thesis by simp
  qed
  from a d1 d2 f show ?thesis by blast
qed

lemma postXfer_in_progress_marks:
  assumes a: "\<forall>(l, r) \<in> set (positions (dlMatrix req)). in_use (dlMatrix req ! l ! r) \<longrightarrow>
        ucx_postXfer env l r = NIXL_SUCCESS \<or> ucx_postXfer env l r = NIXL_IN_PROG"
    and b: "\<exists>(l, r) \<in> set (positions (dlMatrix req)). in_use (dlMatrix req ! l ! r) \<and>
        ucx_postXfer env l r = NIXL_IN_PROG"
  shows "\<exists>req' calls.
      nixlUcxMoEngine_postXfer env eng operation agent (Some req) (Some args) =
        Returns (NIXL_IN_PROG, req', calls)
      \<and> filter is_genNotif calls = []
      \<and> (hasNotif args \<longrightarrow>
           notifNeed req' \<and> req_notifMsg req' = notifMsg args \<and> req_remoteAgent req' = agent)
      \<and> (\<forall>(l, r) \<in> set (positions (dlMatrix req)).
           in_progress (dlMatrix req' ! l ! r) \<longleftrightarrow>
             in_progress (dlMatrix req ! l ! r) \<or>
             (in_use (dlMatrix req ! l ! r) \<and> ucx_postXfer env l r = NIXL_IN_PROG))"
proof -
  from postXfer_in_progress_stores [OF a b, of eng operation agent args]
  obtain req' calls where
    r: "nixlUcxMoEngine_postXfer env eng operation agent (Some req) (Some args) =
        Returns (NIXL_IN_PROG, req', calls)"
    and g: "filter is_genNotif calls = []"
    and n: "hasNotif args \<longrightarrow>
           notifNeed req' \<and> req_notifMsg req' = notifMsg args \<and> req_remoteAgent req' = agent"
    by blast
  from postXfer_in_progress_flags [OF r]
  have f: "\<forall>(l, r) \<in> set (positions (dlMatrix req)).
           in_progress (dlMatrix req' ! l ! r) \<longleftrightarrow>
             in_progress (dlMatrix req ! l ! r) \<or>
             (in_use (dlMatrix req ! l ! r) \<and> ucx_postXfer env l r = NIXL_IN_PROG)"
    by blast
  from r g n f show ?thesis by blast
qed

lemma postXfer_no_piggyback:
  assumes r: "nixlUcxMoEngine_postXfer env eng operation agent (Some req) opt_args =
        Returns (st, req', calls)"
  shows "UcxPostXfer l n h (Some a) \<notin> set calls"
proof -
  let ?P = "positions (dlMatrix req)"
  obtain err m ip cs where
    L: "postXfer_loop env agent ?P (dlMatrix req) False [] = (err, m, ip, cs)"
    by (metis prod_cases4)
  from postXfer_loop_no_opt_args [of l n h a "[]" env agent ?P "dlMatrix req" False] L
  have c: "UcxPostXfer l n h (Some a) \<notin> set cs" by simp
  from r c show ?thesis
    by (auto simp: nixlUcxMoEngine_postXfer_def L Let_def split: option.splits if_splits)
qed

lemma postXfer_sends_iff:
  assumes r: "nixlUcxMoEngine_postXfer env eng operation agent (Some req) opt_args =
        Returns (st, req', calls)"
  shows "(filter is_genNotif calls \<noteq> [] \<longleftrightarrow>
        (\<exists>args. opt_args = Some args \<and> hasNotif args)
        \<and> (\<forall>(l, r) \<in> set (positions (dlMatrix req)). in_use (dlMatrix req ! l ! r) \<longrightarrow>
             ucx_postXfer env l r = NIXL_SUCCESS))
     \<and> (filter is_genNotif calls \<noteq> [] \<longrightarrow>
        (\<exists>args. opt_args = Some args
           \<and> filter is_genNotif calls = [UcxGenNotif 0 (getEngName agent 0) (notifMsg args)]
           \<and> last calls = UcxGenNotif 0 (getEngName agent 0) (notifMsg args)))"
proof -
  let ?P = "positions (dlMatrix req)"
  obtain err m ip cs where
    L: "postXfer_loop env agent ?P (dlMatrix req) False [] = (err, m, ip, cs)"
    by (metis prod_cases4)
  from postXfer_loop_genNotif [of env agent ?P "dlMatrix req" False "[]"] L
  have c: "filter is_genNotif cs = []" by simp
  have sent: "\<exists>args. opt_args = Some args \<and> hasNotif args
      \<and> filter is_genNotif calls = [UcxGenNotif 0 (getEngName agent 0) (notifMsg args)]
      \<and> last calls = UcxGenNotif 0 (getEngName agent 0) (notifMsg args)"
    if g: "filter is_genNotif calls \<noteq> []"
    using r g c
    by (auto simp: nixlUcxMoEngine_postXfer_def L Let_def is_genNotif_simps
        split: option.splits if_splits)
  have sends: "filter is_genNotif calls \<noteq> []"
    if o: "opt_args = Some args" and h: "hasNotif args"
      and a: "\<forall>(l, r) \<in> set ?P. in_use (dlMatrix req ! l ! r) \<longrightarrow>
        ucx_postXfer env l r = NIXL_SUCCESS" for args
  proof -
    from a have a': "\<forall>(l, r) \<in> set ?P. in_use (dlMatrix req ! l ! r) \<longrightarrow>
        ucx_postXfer env l r = NIXL_SUCCESS \<or> ucx_postXfer env l r = NIXL_IN_PROG"
      by blast
    from a' postXfer_loop_None_iff [of env agent ?P "dlMatrix req" False "[]"] L
    have e: "err = None" by simp
    from a have "\<not> (\<exists>(l, r) \<in> set ?P. in_use (dlMatrix req ! l ! r) \<and>
        ucx_postXfer env l r = NIXL_IN_PROG)" by fastforce
    with postXfer_loop_in_prog [of env agent ?P "dlMatrix req" False "[]"] L e
    have i: "\<not> ip" by simp
    from r show ?thesis
      by (auto simp: nixlUcxMoEngine_postXfer_def L e i o h c Let_def is_genNotif_simps
          split: if_splits)
  qed
  from postXfer_sends_only_inline [OF r] sent sends show ?thesis by blast
qed

lemma checkXfer_sends_iff:
  assumes r: "nixlUcxMoEngine_checkXfer env eng (Some req) = Returns (st, req', calls)"
  shows "(filter is_genNotif calls \<noteq> [] \<longleftrightarrow>
        notifNeed req
        \<and> (\<forall>(l, r) \<in> set (positions (dlMatrix req)). in_progress (dlMatrix req ! l ! r) \<longrightarrow>
             ucx_checkXfer env l r = NIXL_SUCCESS))
     \<and> (filter is_genNotif calls \<noteq> [] \<longrightarrow>
        last calls = UcxGenNotif 0 (getEngName (req_remoteAgent req) 0) (req_notifMsg req))
     \<and> notifNeed req' = notifNeed req \<and> req_notifMsg req' = req_notifMsg req
     \<and> req_remoteAgent req' = req_remoteAgent req"
proof -
  let ?P = "positions (dlMatrix req)"
  obtain err m out cs where
    L: "checkXfer_loop env ?P (dlMatrix req) NIXL_SUCCESS [] = (err, m, out, cs)"
    by (metis prod_cases4)
  from checkXfer_loop_genNotif [of env ?P "dlMatrix req" NIXL_SUCCESS "[]"] L
  have c: "filter is_genNotif cs = []" by simp
  have same: "notifNeed req' = notifNeed req \<and> req_notifMsg req' = req_notifMsg req
     \<and> req_remoteAgent req' = req_remoteAgent req"
    using r
    by (auto simp: nixlUcxMoEngine_checkXfer_def L Let_def split: option.splits if_splits)
  have sent: "notifNeed req
      \<and> (\<forall>(l, r) \<in> set ?P. in_progress (dlMatrix req ! l ! r) \<longrightarrow>
           ucx_checkXfer env l r = NIXL_SUCCESS)
      \<and> last calls = UcxGenNotif 0 (getEngName (req_remoteAgent req) 0) (req_notifMsg req)"
    if g: "filter is_genNotif calls \<noteq> []"
  proof -
    from r g c have e: "err = None" and o: "out = NIXL_SUCCESS" and nn: "notifNeed req"
      and la: "last calls =
         UcxGenNotif 0 (getEngName (req_remoteAgent req) 0) (req_notifMsg req)"
      by (auto simp: nixlUcxMoEngine_checkXfer_def L Let_def is_genNotif_simps
          split: option.splits if_splits)
    have "ucx_checkXfer env l r' = NIXL_SUCCESS"
      if "(l, r') \<in> set ?P" "in_progress (dlMatrix req ! l ! r')" for l r'
      using checkXfer_loop_checked [of env ?P "dlMatrix req" NIXL_SUCCESS "[]" l r'] L e o that
      by simp
    with nn la show ?thesis by blast
  qed
  have sends: "filter is_genNotif calls \<noteq> []"
    if nn: "notifNeed req"
      and a: "\<forall>(l, r) \<in> set ?P. in_progress (dlMatrix req ! l ! r) \<longrightarrow>
        ucx_checkXfer env l r = NIXL_SUCCESS"
  proof -
    from checkXfer_loop_all_success [OF a, of NIXL_SUCCESS "[]"] L
    have e: "err = None" and o: "out = NIXL_SUCCESS" by simp_all
    from r show ?thesis
      by (auto simp: nixlUcxMoEngine_checkXfer_def L e o nn c Let_def is_genNotif_simps
          split: if_splits)
  qed
  from same sent sends show ?thesis by blast
qed

lemma checkXfer_flags:
  assumes r: "nixlUcxMoEngine_checkXfer env eng (Some req) = Returns (st, req', calls)"
    and a: "\<forall>(l, r) \<in> set (positions (dlMatrix req)). in_progress (dlMatrix req ! l ! r) \<longrightarrow>
        ucx_checkXfer env l r = NIXL_SUCCESS \<or> ucx_checkXfer env l r = NIXL_IN_PROG"
  shows "\<forall>(l, r) \<in> set (positions (dlMatrix req)).
      in_progress (dlMatrix req' ! l ! r) \<longleftrightarrow>
        in_progress (dlMatrix req ! l ! r) \<and> ucx_checkXfer env l r = NIXL_IN_PROG"
proof -
  let ?P = "positions (dlMatrix req)"
  obtain err m out cs where
    L: "checkXfer_loop env ?P (dlMatrix req) NIXL_SUCCESS [] = (err, m, out, cs)"
    by (metis prod_cases4)
  from checkXfer_loop_None [OF a, of NIXL_SUCCESS "[]"] L have e: "err = None" by simp
  from r have m: "dlMatrix req' = m"
    by (auto simp: nixlUcxMoEngine_checkXfer_def L e Let_def split: if_splits)
  have "in_progress (dlMatrix req' ! l ! r') \<longleftrightarrow>
        in_progress (dlMatrix req ! l ! r') \<and> ucx_checkXfer env l r' = NIXL_IN_PROG"
    if "(l, r') \<in> set ?P" for l r'
  proof -
    from that have b: "l < length (dlMatrix req)" "r' < length (dlMatrix req ! l)"
      by (simp_all add: positions_iff)
    from checkXfer_loop_flags [of env ?P "dlMatrix req" NIXL_SUCCESS "[]" l r'] L e b that m
    have "in_progress (dlMatrix req' ! l ! r') \<longleftrightarrow>
        in_progress (dlMatrix req ! l ! r') \<and> ucx_checkXfer env l r' \<noteq> NIXL_SUCCESS"
      by simp
    with a that show ?thesis by auto
  qed
  then show ?thesis by blast
qed

lemma post_then_check_sends:
  assumes r1: "nixlUcxMoEngine_postXfer env eng operation agent (Some req) opt_args =
        Returns (NIXL_IN_PROG, req1, calls1)"
    and r2: "nixlUcxMoEngine_checkXfer env2 eng (Some req1) = Returns (st2, req2, calls2)"
    and g: "filter is_genNotif calls2 \<noteq> []"
  shows "\<forall>(l, r) \<in> set (positions (dlMatrix req)). in_use (dlMatrix req ! l ! r) \<longrightarrow>
      ucx_postXfer env l r = NIXL_SUCCESS \<or>
      (ucx_postXfer env l r = NIXL_IN_PROG \<and> ucx_checkXfer env2 l r = NIXL_SUCCESS)"
proof -
  from postXfer_in_progress_flags [OF r1]
  have a: "\<forall>(l, r) \<in> set (positions (dlMatrix req)). in_use (dlMatrix req ! l ! r) \<longrightarrow>
        ucx_postXfer env l r = NIXL_SUCCESS \<or> ucx_postXfer env l r = NIXL_IN_PROG"
    and d1: "length (dlMatrix req1) = length (dlMatrix req)"
    and d2: "\<forall>l. length (dlMatrix req1 ! l) = length (dlMatrix req ! l)"
    and f: "\<forall>(l, r) \<in> set (positions (dlMatrix req)).
          in_progress (dlMatrix req1 ! l ! r) \<longleftrightarrow>
            in_progress (dlMatrix req ! l ! r) \<or>
            (in_use (dlMatrix req ! l ! r) \<and> ucx_postXfer env l r = NIXL_IN_PROG)"
    by blast+
  from checkXfer_sends_iff [OF r2] g
  have c: "\<forall>(l, r) \<in> set (positions (dlMatrix req1)). in_progress (dlMatrix req1 ! l ! r) \<longrightarrow>
      ucx_checkXfer env2 l r = NIXL_SUCCESS"
    by blast
  have "ucx_postXfer env l r' = NIXL_SUCCESS \<or>
      (ucx_postXfer env l r' = NIXL_IN_PROG \<and> ucx_checkXfer env2 l r' = NIXL_SUCCESS)"
    if p: "(l, r') \<in> set (positions (dlMatrix req))" and u: "in_use (dlMatrix req ! l ! r')"
    for l r'
  proof (cases "ucx_postXfer env l r' = NIXL_SUCCESS")
    case True
    then show ?thesis by simp
  next
    case False
    with a p u have i: "ucx_postXfer env l r' = NIXL_IN_PROG" by auto
    with f p u have fl: "in_progress (dlMatrix req1 ! l ! r')" by auto
    from p d1 d2 have "(l, r') \<in> set (positions (dlMatrix req1))"
      by (simp add: positions_iff)
    with c fl have "ucx_checkXfer env2 l r' = NIXL_SUCCESS" by auto
    with i show ?thesis by simp
  qed
  then show ?thesis by blast
qed

text \<open>
  Claim C6. The inner engines' \<^verbatim>\<open>postXfer\<close> is never handed optional arguments, so no
  notification rides on a data operation. If every sub-transfer in use posts with success
  or in progress and one is in progress, \<^verbatim>\<open>postXfer\<close> returns \<^verbatim>\<open>NIXL_IN_PROG\<close>, calls no
  \<^verbatim>\<open>genNotif\<close>, stores the requested message and the agent on the handle, and flags exactly
  the sub-transfers that posted in progress. \<^verbatim>\<open>postXfer\<close> calls \<^verbatim>\<open>genNotif\<close> exactly when a
  notification is requested and every sub-transfer in use returned success inline; the
  call is its last, once, on engine 0. A \<^verbatim>\<open>checkXfer\<close> that returns calls \<^verbatim>\<open>genNotif\<close> exactly
  when a notification is stored and every flagged sub-transfer answers its check of this
  call with \<^verbatim>\<open>NIXL_SUCCESS\<close>; the call is its last, once, with the stored agent and message,
  and no sub-transfer is flagged afterwards. A \<^verbatim>\<open>checkXfer\<close> in which the flagged
  sub-transfers answer success or in progress leaves flagged exactly those that answered
  in progress. Hence, when a \<^verbatim>\<open>checkXfer\<close> that follows an in-progress \<^verbatim>\<open>postXfer\<close> sends the
  notification, every sub-transfer in use has reported success, at posting or in that
  check. The stored request is never cleared: a later \<^verbatim>\<open>checkXfer\<close> on the finished handle
  sends the notification again.
\<close>

theorem notification_sent_after_all_subtransfers:
  "((\<forall>(l, r) \<in> set (positions (dlMatrix req)). in_use (dlMatrix req ! l ! r) \<longrightarrow>
        ucx_postXfer env l r = NIXL_SUCCESS \<or> ucx_postXfer env l r = NIXL_IN_PROG)
     \<and> (\<exists>(l, r) \<in> set (positions (dlMatrix req)). in_use (dlMatrix req ! l ! r) \<and>
        ucx_postXfer env l r = NIXL_IN_PROG) \<longrightarrow>
     (\<exists>req' calls.
        nixlUcxMoEngine_postXfer env eng operation agent (Some req) (Some args) =
          Returns (NIXL_IN_PROG, req', calls)
        \<and> filter is_genNotif calls = []
        \<and> (hasNotif args \<longrightarrow>
             notifNeed req' \<and> req_notifMsg req' = notifMsg args \<and> req_remoteAgent req' = agent)
        \<and> (\<forall>(l, r) \<in> set (positions (dlMatrix req)).
             in_progress (dlMatrix req' ! l ! r) \<longleftrightarrow>
               in_progress (dlMatrix req ! l ! r) \<or>
               (in_use (dlMatrix req ! l ! r) \<and> ucx_postXfer env l r = NIXL_IN_PROG))))
   \<and> ((\<forall>(l, r) \<in> set (positions (dlMatrix req)). in_use (dlMatrix req ! l ! r) \<longrightarrow>
        ucx_postXfer env l r = NIXL_SUCCESS)
      \<and> hasNotif args \<and> 0 < engines_size eng \<longrightarrow>
     (\<exists>st req' calls.
        nixlUcxMoEngine_postXfer env eng operation agent (Some req) (Some args) =
          Returns (st, req', calls)
        \<and> filter is_genNotif calls = [UcxGenNotif 0 (getEngName agent 0) (notifMsg args)]))
   \<and> (nixlUcxMoEngine_postXfer env eng operation agent (Some req) opt_args =
         Returns (st1, req1, calls1) \<longrightarrow>
     UcxPostXfer pl pn ph (Some pa) \<notin> set calls1
     \<and> (filter is_genNotif calls1 \<noteq> [] \<longleftrightarrow>
          (\<exists>args. opt_args = Some args \<and> hasNotif args)
          \<and> (\<forall>(l, r) \<in> set (positions (dlMatrix req)). in_use (dlMatrix req ! l ! r) \<longrightarrow>
               ucx_postXfer env l r = NIXL_SUCCESS))
     \<and> (filter is_genNotif calls1 \<noteq> [] \<longrightarrow>
          (\<exists>args. opt_args = Some args
             \<and> filter is_genNotif calls1 = [UcxGenNotif 0 (getEngName agent 0) (notifMsg args)]
             \<and> last calls1 = UcxGenNotif 0 (getEngName agent 0) (notifMsg args))))
   \<and> (nixlUcxMoEngine_checkXfer env eng (Some req) = Returns (st2, req2, calls2) \<longrightarrow>
     (filter is_genNotif calls2 \<noteq> [] \<longleftrightarrow>
        notifNeed req
        \<and> (\<forall>(l, r) \<in> set (positions (dlMatrix req)). in_progress (dlMatrix req ! l ! r) \<longrightarrow>
             ucx_checkXfer env l r = NIXL_SUCCESS))
     \<and> (filter is_genNotif calls2 \<noteq> [] \<longrightarrow>
          filter is_genNotif calls2 =
            [UcxGenNotif 0 (getEngName (req_remoteAgent req) 0) (req_notifMsg req)]
          \<and> last calls2 = UcxGenNotif 0 (getEngName (req_remoteAgent req) 0) (req_notifMsg req)
          \<and> (\<forall>l < length (dlMatrix req2). \<forall>r < length (dlMatrix req2 ! l).
               \<not> in_progress (dlMatrix req2 ! l ! r)))
     \<and> notifNeed req2 = notifNeed req \<and> req_notifMsg req2 = req_notifMsg req
     \<and> req_remoteAgent req2 = req_remoteAgent req)
   \<and> (notifNeed req \<and> 0 < engines_size eng
      \<and> (\<forall>(l, r) \<in> set (positions (dlMatrix req)). in_progress (dlMatrix req ! l ! r) \<longrightarrow>
        ucx_checkXfer env l r = NIXL_SUCCESS) \<longrightarrow>
     (\<exists>st req' calls.
        nixlUcxMoEngine_checkXfer env eng (Some req) = Returns (st, req', calls)
        \<and> filter is_genNotif calls =
            [UcxGenNotif 0 (getEngName (req_remoteAgent req) 0) (req_notifMsg req)]))
   \<and> (nixlUcxMoEngine_checkXfer env eng (Some req) = Returns (st2, req2, calls2)
      \<and> (\<forall>(l, r) \<in> set (positions (dlMatrix req)). in_progress (dlMatrix req ! l ! r) \<longrightarrow>
        ucx_checkXfer env l r = NIXL_SUCCESS \<or> ucx_checkXfer env l r = NIXL_IN_PROG) \<longrightarrow>
     (\<forall>(l, r) \<in> set (positions (dlMatrix req)).
        in_progress (dlMatrix req2 ! l ! r) \<longleftrightarrow>
          in_progress (dlMatrix req ! l ! r) \<and> ucx_checkXfer env l r = NIXL_IN_PROG))
   \<and> (nixlUcxMoEngine_postXfer env eng operation agent (Some req) opt_args =
         Returns (NIXL_IN_PROG, req3, calls3)
      \<and> nixlUcxMoEngine_checkXfer env2 eng (Some req3) = Returns (st4, req4, calls4)
      \<and> filter is_genNotif calls4 \<noteq> [] \<longrightarrow>
     (\<forall>(l, r) \<in> set (positions (dlMatrix req)). in_use (dlMatrix req ! l ! r) \<longrightarrow>
        ucx_postXfer env l r = NIXL_SUCCESS \<or>
        (ucx_postXfer env l r = NIXL_IN_PROG \<and> ucx_checkXfer env2 l r = NIXL_SUCCESS)))"
proof -
  have c1: "(\<forall>(l, r) \<in> set (positions (dlMatrix req)). in_use (dlMatrix req ! l ! r) \<longrightarrow>
        ucx_postXfer env l r = NIXL_SUCCESS \<or> ucx_postXfer env l r = NIXL_IN_PROG)
     \<and> (\<exists>(l, r) \<in> set (positions (dlMatrix req)). in_use (dlMatrix req ! l ! r) \<and>
        ucx_postXfer env l r = NIXL_IN_PROG) \<longrightarrow>
     (\<exists>req' calls.
        nixlUcxMoEngine_postXfer env eng operation agent (Some req) (Some args) =
          Returns (NIXL_IN_PROG, req', calls)
        \<and> filter is_genNotif calls = []
        \<and> (hasNotif args \<longrightarrow>
             notifNeed req' \<and> req_notifMsg req' = notifMsg args \<and> req_remoteAgent req' = agent)
        \<and> (\<forall>(l, r) \<in> set (positions (dlMatrix req)).
             in_progress (dlMatrix req' ! l ! r) \<longleftrightarrow>
               in_progress (dlMatrix req ! l ! r) \<or>
               (in_use (dlMatrix req ! l ! r) \<and> ucx_postXfer env l r = NIXL_IN_PROG)))"
    using postXfer_in_progress_marks [of req env eng operation agent args] by blast
  have c2: "(\<forall>(l, r) \<in> set (positions (dlMatrix req)). in_use (dlMatrix req ! l ! r) \<longrightarrow>
        ucx_postXfer env l r = NIXL_SUCCESS)
      \<and> hasNotif args \<and> 0 < engines_size eng \<longrightarrow>
     (\<exists>st req' calls.
        nixlUcxMoEngine_postXfer env eng operation agent (Some req) (Some args) =
          Returns (st, req', calls)
        \<and> filter is_genNotif calls = [UcxGenNotif 0 (getEngName agent 0) (notifMsg args)])"
    using postXfer_inline_sends [of req env args eng operation agent] by blast
  have c3: "nixlUcxMoEngine_postXfer env eng operation agent (Some req) opt_args =
         Returns (st1, req1, calls1) \<longrightarrow>
     UcxPostXfer pl pn ph (Some pa) \<notin> set calls1
     \<and> (filter is_genNotif calls1 \<noteq> [] \<longleftrightarrow>
          (\<exists>args. opt_args = Some args \<and> hasNotif args)
          \<and> (\<forall>(l, r) \<in> set (positions (dlMatrix req)). in_use (dlMatrix req ! l ! r) \<longrightarrow>
               ucx_postXfer env l r = NIXL_SUCCESS))
     \<and> (filter is_genNotif calls1 \<noteq> [] \<longrightarrow>
          (\<exists>args. opt_args = Some args
             \<and> filter is_genNotif calls1 = [UcxGenNotif 0 (getEngName agent 0) (notifMsg args)]
             \<and> last calls1 = UcxGenNotif 0 (getEngName agent 0) (notifMsg args)))"
  proof
    assume r: "nixlUcxMoEngine_postXfer env eng operation agent (Some req) opt_args =
         Returns (st1, req1, calls1)"
    from postXfer_no_piggyback [OF r] postXfer_sends_iff [OF r]
    show "UcxPostXfer pl pn ph (Some pa) \<notin> set calls1
     \<and> (filter is_genNotif calls1 \<noteq> [] \<longleftrightarrow>
          (\<exists>args. opt_args = Some args \<and> hasNotif args)
          \<and> (\<forall>(l, r) \<in> set (positions (dlMatrix req)). in_use (dlMatrix req ! l ! r) \<longrightarrow>
               ucx_postXfer env l r = NIXL_SUCCESS))
     \<and> (filter is_genNotif calls1 \<noteq> [] \<longrightarrow>
          (\<exists>args. opt_args = Some args
             \<and> filter is_genNotif calls1 = [UcxGenNotif 0 (getEngName agent 0) (notifMsg args)]
             \<and> last calls1 = UcxGenNotif 0 (getEngName agent 0) (notifMsg args)))"
      by blast
  qed
  have c4: "nixlUcxMoEngine_checkXfer env eng (Some req) = Returns (st2, req2, calls2) \<longrightarrow>
     (filter is_genNotif calls2 \<noteq> [] \<longleftrightarrow>
        notifNeed req
        \<and> (\<forall>(l, r) \<in> set (positions (dlMatrix req)). in_progress (dlMatrix req ! l ! r) \<longrightarrow>
             ucx_checkXfer env l r = NIXL_SUCCESS))
     \<and> (filter is_genNotif calls2 \<noteq> [] \<longrightarrow>
          filter is_genNotif calls2 =
            [UcxGenNotif 0 (getEngName (req_remoteAgent req) 0) (req_notifMsg req)]
          \<and> last calls2 = UcxGenNotif 0 (getEngName (req_remoteAgent req) 0) (req_notifMsg req)
          \<and> (\<forall>l < length (dlMatrix req2). \<forall>r < length (dlMatrix req2 ! l).
               \<not> in_progress (dlMatrix req2 ! l ! r)))
     \<and> notifNeed req2 = notifNeed req \<and> req_notifMsg req2 = req_notifMsg req
     \<and> req_remoteAgent req2 = req_remoteAgent req"
  proof
    assume r: "nixlUcxMoEngine_checkXfer env eng (Some req) = Returns (st2, req2, calls2)"
    from checkXfer_sends_iff [OF r] checkXfer_sends_when_done [OF r]
    show "(filter is_genNotif calls2 \<noteq> [] \<longleftrightarrow>
        notifNeed req
        \<and> (\<forall>(l, r) \<in> set (positions (dlMatrix req)). in_progress (dlMatrix req ! l ! r) \<longrightarrow>
             ucx_checkXfer env l r = NIXL_SUCCESS))
     \<and> (filter is_genNotif calls2 \<noteq> [] \<longrightarrow>
          filter is_genNotif calls2 =
            [UcxGenNotif 0 (getEngName (req_remoteAgent req) 0) (req_notifMsg req)]
          \<and> last calls2 = UcxGenNotif 0 (getEngName (req_remoteAgent req) 0) (req_notifMsg req)
          \<and> (\<forall>l < length (dlMatrix req2). \<forall>r < length (dlMatrix req2 ! l).
               \<not> in_progress (dlMatrix req2 ! l ! r)))
     \<and> notifNeed req2 = notifNeed req \<and> req_notifMsg req2 = req_notifMsg req
     \<and> req_remoteAgent req2 = req_remoteAgent req"
      by blast
  qed
  have c5: "notifNeed req \<and> 0 < engines_size eng
      \<and> (\<forall>(l, r) \<in> set (positions (dlMatrix req)). in_progress (dlMatrix req ! l ! r) \<longrightarrow>
        ucx_checkXfer env l r = NIXL_SUCCESS) \<longrightarrow>
     (\<exists>st req' calls.
        nixlUcxMoEngine_checkXfer env eng (Some req) = Returns (st, req', calls)
        \<and> filter is_genNotif calls =
            [UcxGenNotif 0 (getEngName (req_remoteAgent req) 0) (req_notifMsg req)])"
    using checkXfer_sends_stored [of req eng env] by blast
  have c6: "nixlUcxMoEngine_checkXfer env eng (Some req) = Returns (st2, req2, calls2)
      \<and> (\<forall>(l, r) \<in> set (positions (dlMatrix req)). in_progress (dlMatrix req ! l ! r) \<longrightarrow>
        ucx_checkXfer env l r = NIXL_SUCCESS \<or> ucx_checkXfer env l r = NIXL_IN_PROG) \<longrightarrow>
     (\<forall>(l, r) \<in> set (positions (dlMatrix req)).
        in_progress (dlMatrix req2 ! l ! r) \<longleftrightarrow>
          in_progress (dlMatrix req ! l ! r) \<and> ucx_checkXfer env l r = NIXL_IN_PROG)"
    using checkXfer_flags [of env eng req st2 req2 calls2] by blast
  have c7: "nixlUcxMoEngine_postXfer env eng operation agent (Some req) opt_args =
         Returns (NIXL_IN_PROG, req3, calls3)
      \<and> nixlUcxMoEngine_checkXfer env2 eng (Some req3) = Returns (st4, req4, calls4)
      \<and> filter is_genNotif calls4 \<noteq> [] \<longrightarrow>
     (\<forall>(l, r) \<in> set (positions (dlMatrix req)). in_use (dlMatrix req ! l ! r) \<longrightarrow>
        ucx_postXfer env l r = NIXL_SUCCESS \<or>
        (ucx_postXfer env l r = NIXL_IN_PROG \<and> ucx_checkXfer env2 l r = NIXL_SUCCESS))"
    using post_then_check_sends [of env eng operation agent req opt_args req3 calls3 env2 st4
        req4 calls4]
    by blast
  show ?thesis
    by (rule conjI [OF c1 conjI [OF c2 conjI [OF c3 conjI [OF c4 conjI [OF c5 conjI [OF c6 c7]]]]]])
qed

lemma example_positions: "positions (dlMatrix example_mo_req) = [(0, 0), (0, 1), (1, 0), (1, 1)]"
  by (simp add: positions_def example_mo_req_def upt_conv_Cons)

lemma example_postXfer:
  "nixlUcxMoEngine_postXfer example_ucx_env example_mo_engine NIXL_WRITE ''B''
      (Some example_mo_req) (Some example_opt_args) =
     Returns (NIXL_IN_PROG,
       \<lparr>dlMatrix = [[(example_used_elem 0)\<lparr>in_progress := True\<rparr>, new_dlMatrixElem],
                    [new_dlMatrixElem, example_used_elem 11]],
        req_remoteAgent = ''B'', notifNeed = True, req_notifMsg = ''test''\<rparr>,
       [UcxPostXfer 0 ''B:0'' (Some 0) None, UcxPostXfer 1 ''B:1'' (Some 11) None])"
  by (simp add: nixlUcxMoEngine_postXfer_def example_positions Let_def)
     (simp add: example_mo_req_def example_used_elem_def new_dlMatrixElem_def
        example_ucx_env_def example_opt_args_def example_mo_engine_def set_elem_def
        getEngName_def Let_def)

lemma example_checkXfer:
  "nixlUcxMoEngine_checkXfer example_ucx_env example_mo_engine
      (Some \<lparr>dlMatrix = [[(example_used_elem 0)\<lparr>in_progress := True\<rparr>, new_dlMatrixElem],
                         [new_dlMatrixElem, example_used_elem 11]],
             req_remoteAgent = ''B'', notifNeed = True, req_notifMsg = ''test''\<rparr>) =
     Returns (NIXL_SUCCESS,
       \<lparr>dlMatrix = [[example_used_elem 0, new_dlMatrixElem],
                    [new_dlMatrixElem, example_used_elem 11]],
        req_remoteAgent = ''B'', notifNeed = True, req_notifMsg = ''test''\<rparr>,
       [UcxCheckXfer 0 (Some 0), UcxGenNotif 0 ''B:0'' ''test''])"
  by (simp add: nixlUcxMoEngine_checkXfer_def positions_def upt_conv_Cons
        example_used_elem_def new_dlMatrixElem_def
        example_ucx_env_def example_mo_engine_def set_elem_def getEngName_def Let_def)


theorem notification_sent_after_all_subtransfers_witness:
  "nixlUcxMoEngine_postXfer example_ucx_env example_mo_engine NIXL_WRITE ''B''
      (Some example_mo_req) (Some example_opt_args) =
     Returns (NIXL_IN_PROG,
       \<lparr>dlMatrix = [[(example_used_elem 0)\<lparr>in_progress := True\<rparr>, new_dlMatrixElem],
                    [new_dlMatrixElem, example_used_elem 11]],
        req_remoteAgent = ''B'', notifNeed = True, req_notifMsg = ''test''\<rparr>,
       [UcxPostXfer 0 ''B:0'' (Some 0) None, UcxPostXfer 1 ''B:1'' (Some 11) None])
   \<and> nixlUcxMoEngine_checkXfer example_ucx_env example_mo_engine
      (Some \<lparr>dlMatrix = [[(example_used_elem 0)\<lparr>in_progress := True\<rparr>, new_dlMatrixElem],
                         [new_dlMatrixElem, example_used_elem 11]],
             req_remoteAgent = ''B'', notifNeed = True, req_notifMsg = ''test''\<rparr>) =
     Returns (NIXL_SUCCESS,
       \<lparr>dlMatrix = [[example_used_elem 0, new_dlMatrixElem],
                    [new_dlMatrixElem, example_used_elem 11]],
        req_remoteAgent = ''B'', notifNeed = True, req_notifMsg = ''test''\<rparr>,
       [UcxCheckXfer 0 (Some 0), UcxGenNotif 0 ''B:0'' ''test''])
   \<and> (\<exists>req' calls.
        nixlUcxMoEngine_postXfer example_ucx_env example_mo_engine NIXL_WRITE ''B''
          (Some example_mo_req) (Some example_opt_args) = Returns (NIXL_IN_PROG, req', calls)
        \<and> filter is_genNotif calls = []
        \<and> notifNeed req' \<and> req_notifMsg req' = ''test'' \<and> req_remoteAgent req' = ''B''
        \<and> in_progress (dlMatrix req' ! 0 ! 0) \<and> \<not> in_progress (dlMatrix req' ! 1 ! 1))"
proof -
  have all: "\<forall>(l, r) \<in> set (positions (dlMatrix example_mo_req)).
      in_use (dlMatrix example_mo_req ! l ! r) \<longrightarrow>
        ucx_postXfer example_ucx_env l r = NIXL_SUCCESS \<or>
        ucx_postXfer example_ucx_env l r = NIXL_IN_PROG"
    by (simp add: example_positions example_ucx_env_def)
  have some: "\<exists>(l, r) \<in> set (positions (dlMatrix example_mo_req)).
      in_use (dlMatrix example_mo_req ! l ! r) \<and>
        ucx_postXfer example_ucx_env l r = NIXL_IN_PROG"
    by (simp add: example_positions)
      (simp add: example_mo_req_def example_used_elem_def example_ucx_env_def)
  have args: "hasNotif example_opt_args" "notifMsg example_opt_args = ''test''"
    by (simp_all add: example_opt_args_def)
  note posted = notification_sent_after_all_subtransfers [where req = example_mo_req
      and env = example_ucx_env and eng = example_mo_engine and operation = NIXL_WRITE
      and agent = "''B''" and args = example_opt_args, THEN conjunct1]
  from mp [OF posted conjI [OF all some]] obtain req' calls where
    r: "nixlUcxMoEngine_postXfer example_ucx_env example_mo_engine NIXL_WRITE ''B''
          (Some example_mo_req) (Some example_opt_args) = Returns (NIXL_IN_PROG, req', calls)"
      "filter is_genNotif calls = []"
      "hasNotif example_opt_args \<longrightarrow>
         notifNeed req' \<and> req_notifMsg req' = notifMsg example_opt_args \<and>
         req_remoteAgent req' = ''B''"
      "\<forall>(l, r) \<in> set (positions (dlMatrix example_mo_req)).
         in_progress (dlMatrix req' ! l ! r) \<longleftrightarrow>
           in_progress (dlMatrix example_mo_req ! l ! r) \<or>
           (in_use (dlMatrix example_mo_req ! l ! r) \<and>
            ucx_postXfer example_ucx_env l r = NIXL_IN_PROG)"
    by blast
  from r(4) have flags: "in_progress (dlMatrix req' ! 0 ! 0) \<and> \<not> in_progress (dlMatrix req' ! 1 ! 1)"
    by (simp add: example_positions)
      (simp add: example_mo_req_def example_used_elem_def example_ucx_env_def)
  from r(3) args have stored:
    "notifNeed req' \<and> req_notifMsg req' = ''test'' \<and> req_remoteAgent req' = ''B''"
    by simp
  have third: "\<exists>req' calls.
        nixlUcxMoEngine_postXfer example_ucx_env example_mo_engine NIXL_WRITE ''B''
          (Some example_mo_req) (Some example_opt_args) = Returns (NIXL_IN_PROG, req', calls)
        \<and> filter is_genNotif calls = []
        \<and> notifNeed req' \<and> req_notifMsg req' = ''test'' \<and> req_remoteAgent req' = ''B''
        \<and> in_progress (dlMatrix req' ! 0 ! 0) \<and> \<not> in_progress (dlMatrix req' ! 1 ! 1)"
    using r(1) r(2) stored flags by (intro exI [of _ req'] exI [of _ calls] conjI) simp_all
  show ?thesis
    by (rule conjI [OF example_postXfer conjI [OF example_checkXfer third]])
qed

end
